theory Spec2Isabelle
  imports Complex_Main "HOL-Library.Sublist" "HOL-Library.Log_Nat"
begin

section \<open>Python floats\<close>

text \<open>
  \<^verbatim>\<open>modelgen.py\<close> holds one method, \<^verbatim>\<open>ModelGenerator.import_from_openstreet_map\<close>.
  It calls four classes of the external \<^verbatim>\<open>osm\<close> package, assembles a dictionary and
  dumps it as JSON. Its one computation is the product \<^verbatim>\<open>terrain_radius * 0.8\<close> of lines 93
  and 104, a product of Python floats, so the floats come first.

  A Python float is an IEEE 754 binary64 number: a finite number, given here by its exact
  rational value (\<open>Finite 0\<close> is \<^verbatim>\<open>0.0\<close>), the negative zero, an infinity, or a NaN.
\<close>

datatype pyfloat = Finite rat | NegZero | PosInf | NegInf | NaN

text \<open>The exponent of a positive rational: \<open>2 powi k \<le> q < 2 powi (k + 1)\<close>.\<close>

definition floor_log2 :: "rat \<Rightarrow> int" where
  "floor_log2 q = (if 1 \<le> q then bitlen \<lfloor>q\<rfloor> - 1 else - bitlen (\<lceil>1 / q\<rceil> - 1))"

text \<open>Rounding to the nearest integer, a tie to the even one.\<close>

definition round_half_even :: "rat \<Rightarrow> int" where
  "round_half_even x =
     (let f = \<lfloor>x\<rfloor>; d = x - of_int f in
      if d < 1 / 2 then f
      else if 1 / 2 < d then f + 1
      else if even f then f else f + 1)"

text \<open>
  Rounding to binary64, the exponent range not bounded above: 53 significant bits, or
  fewer below \<open>2 powi (- 1022)\<close>, where the numbers are the multiples of \<open>2 powi (- 1074)\<close>.
\<close>

definition round_double :: "rat \<Rightarrow> rat" where
  "round_double q =
     (if q = 0 then 0
      else let e = max (floor_log2 \<bar>q\<bar> - 52) (- 1074) in
           sgn q * of_int (round_half_even (\<bar>q\<bar> / 2 powi e)) * 2 powi e)"

text \<open>
  The float of an exact result: an infinity on overflow, a zero with the sign of the exact
  result when it rounds to zero.
\<close>

definition to_double :: "bool \<Rightarrow> rat \<Rightarrow> pyfloat" where
  "to_double neg q =
     (let r = round_double q in
      if 2 ^ 1024 \<le> \<bar>r\<bar> then (if neg then NegInf else PosInf)
      else if r = 0 then (if neg then NegZero else Finite 0)
      else Finite r)"

fun float_negative :: "pyfloat \<Rightarrow> bool" where
  "float_negative (Finite q) = (q < 0)"
| "float_negative NegZero = True"
| "float_negative PosInf = False"
| "float_negative NegInf = True"
| "float_negative NaN = False"

fun float_is_zero :: "pyfloat \<Rightarrow> bool" where
  "float_is_zero (Finite q) = (q = 0)"
| "float_is_zero NegZero = True"
| "float_is_zero _ = False"

fun float_is_inf :: "pyfloat \<Rightarrow> bool" where
  "float_is_inf PosInf = True"
| "float_is_inf NegInf = True"
| "float_is_inf _ = False"

fun float_value :: "pyfloat \<Rightarrow> rat" where
  "float_value (Finite q) = q"
| "float_value _ = 0"

text \<open>The product \<^verbatim>\<open>x * y\<close> of two floats: the exact product, rounded.\<close>

definition float_mul :: "pyfloat \<Rightarrow> pyfloat \<Rightarrow> pyfloat" where
  "float_mul x y =
     (if x = NaN \<or> y = NaN then NaN
      else let neg = (float_negative x \<noteq> float_negative y) in
        if float_is_inf x \<or> float_is_inf y then
          (if float_is_zero x \<or> float_is_zero y then NaN
           else if neg then NegInf else PosInf)
        else if float_is_zero x \<or> float_is_zero y then
          (if neg then NegZero else Finite 0)
        else to_double neg (float_value x * float_value y))"

text \<open>
  The conversion of an integer to a float rounds it, and raises \<^verbatim>\<open>OverflowError\<close>
  (\<open>None\<close> here) when the result is beyond the largest float.
\<close>

definition float_of_int :: "int \<Rightarrow> pyfloat option" where
  "float_of_int i =
     (let r = round_double (of_int i) in
      if 2 ^ 1024 \<le> \<bar>r\<bar> then None else Some (Finite r))"

text \<open>The literal \<^verbatim>\<open>0.8\<close> of lines 93 and 104: the float nearest to eight tenths.\<close>

definition float_0_8 :: pyfloat where
  "float_0_8 = to_double False (8 / 10)"

section \<open>Python values\<close>

text \<open>
  The values the method handles are numbers, strings, booleans, lists, dictionaries with
  string keys, and opaque objects (meshes, provider instances), which are represented by
  a handle.
\<close>

datatype pynum = PInt int | PFloat pyfloat

datatype pyval =
    PNone
  | PBool bool
  | PNum pynum
  | PStr string
  | PList "pyval list"
  | PDict "(string \<times> pyval) list"
  | PObj nat

type_synonym pydict = "(string \<times> pyval) list"

text \<open>
  Exceptions. \<open>KeyError\<close> is raised by a subscript \<^verbatim>\<open>d["k"]\<close> on a missing key,
  \<open>OverflowError\<close> by the conversion of an integer too large for a float;
  \<open>Raised\<close> is any exception raised inside an external call (an import, a provider,
  \<^verbatim>\<open>open\<close>, \<^verbatim>\<open>json.dump\<close>).
\<close>

datatype exn = KeyError string | OverflowError | Raised string

text \<open>
  A dictionary keeps its insertion order: \<^verbatim>\<open>d[k] = v\<close> replaces the value of an existing
  key in place and appends a new key at the end.
\<close>

fun dict_set :: "pydict \<Rightarrow> string \<Rightarrow> pyval \<Rightarrow> pydict" where
  "dict_set [] k v = [(k, v)]"
| "dict_set ((k', v') # d) k v =
     (if k' = k then (k', v) # d else (k', v') # dict_set d k v)"

definition dict_keys :: "pydict \<Rightarrow> string list" where
  "dict_keys d = map fst d"

section \<open>The external world\<close>

text \<open>
  The file system maps a path to the text of the file; \<open>outside\<close> is everything else the
  providers depend on and change (the network, the map server, their caches).
\<close>

record 'w world =
  files :: "string \<rightharpoonup> string"
  outside :: 'w

datatype prep_class = TerrainPrep | BuildingsPrep | TreesPrep | RoadPrep

text \<open>
  The method calls on the provider instances, with the arguments in the order of the
  source: the instance, \<^verbatim>\<open>latitude_longitude\<close>, then (but for the terrain) the terrain mesh,
  then the keyword arguments \<^verbatim>\<open>max_radius\<close>, and \<^verbatim>\<open>grid_size\<close> or \<^verbatim>\<open>z_offset\<close>,
  \<^verbatim>\<open>road_step\<close>, \<^verbatim>\<open>road_width\<close>, \<^verbatim>\<open>save_nodes\<close>.
\<close>

datatype method_call =
    Get_terrain nat pyval pyval int
  | Generate_buildings nat pyval pyval pyval
  | Generate_trees nat pyval pyval pyval
  | Create_roads nat pyval pyval pyval pyval pyval pyval pyval

text \<open>
  What the function does to its surroundings, in the order it does it: each import
  (module, name) with its outcome, each external call with its outcome, each message given
  to the logger, the opening of the output file (path, mode, encoding) and the dump
  (object, indent, text written).
\<close>

datatype event =
    Imported string string "exn option"
  | Constructed prep_class string "exn + nat"
  | Called method_call "exn + pydict"
  | Log_info string
  | Opened string string string "exn option"
  | Dumped pyval nat string "exn option"

text \<open>
  The parts of the run-time environment that are not code of this repository: the import
  system, the classes of the \<^verbatim>\<open>osm\<close> package (a constructor taking \<^verbatim>\<open>cad_path\<close>, and the
  methods), and the standard library's \<^verbatim>\<open>os.path.join\<close>, \<^verbatim>\<open>open\<close> and \<^verbatim>\<open>json.dump\<close>.
  \<^item> \<open>import_from\<close>, \<open>construct\<close> and \<open>call_method\<close> run in the world and may change it in
    any way. An import raises or not; a constructor returns an instance handle or raises;
    a method returns the dictionary \<^verbatim>\<open>{"file_name": ..., "mesh": ...}\<close> or raises.
  \<^item> \<open>os_path_join\<close> is the join of two path components on the platform.
  \<^item> \<open>open_w\<close> says whether opening a path for writing fails in a world.
  \<^item> \<open>json_dump obj indent\<close> is the text that \<^verbatim>\<open>json.dump\<close> writes, and the exception
    it then raises, if any (an object that is not serialisable, a failed write).
\<close>

record 'w runtime =
  import_from :: "string \<Rightarrow> string \<Rightarrow> 'w world \<Rightarrow> exn option \<times> 'w world"
  construct :: "prep_class \<Rightarrow> string \<Rightarrow> 'w world \<Rightarrow> (exn + nat) \<times> 'w world"
  call_method :: "method_call \<Rightarrow> 'w world \<Rightarrow> (exn + pydict) \<times> 'w world"
  os_path_join :: "string \<Rightarrow> string \<Rightarrow> string"
  open_w :: "string \<Rightarrow> 'w world \<Rightarrow> exn option"
  json_dump :: "pyval \<Rightarrow> nat \<Rightarrow> string \<times> exn option"

text \<open>
  \<^verbatim>\<open>os.path.join(a, b)\<close> of two components as \<^verbatim>\<open>posixpath\<close> defines it: a second component
  that starts with the separator replaces the first.
\<close>

definition posixpath_join :: "string \<Rightarrow> string \<Rightarrow> string" where
  "posixpath_join a b =
     (if prefix ''/'' b then b
      else if a = [] \<or> suffix ''/'' a then a @ b
      else a @ ''/'' @ b)"

section \<open>Statements with effects\<close>

text \<open>
  A statement takes the world and gives a value or an exception, the new world, and the
  events it produced. Sequencing stops at the first exception, as Python does: nothing in
  the source catches one.
\<close>

type_synonym ('a, 'w) action = "'w world \<Rightarrow> (exn + 'a) \<times> 'w world \<times> event list"

definition returnM :: "'a \<Rightarrow> ('a, 'w) action" where
  "returnM x = (\<lambda>w. (Inr x, w, []))"

definition bindM :: "('a, 'w) action \<Rightarrow> ('a \<Rightarrow> ('b, 'w) action) \<Rightarrow> ('b, 'w) action" where
  "bindM m f = (\<lambda>w.
     case m w of
       (Inl e, w1, t1) \<Rightarrow> (Inl e, w1, t1)
     | (Inr x, w1, t1) \<Rightarrow> (case f x w1 of (r, w2, t2) \<Rightarrow> (r, w2, t1 @ t2)))"

definition liftE :: "exn + 'a \<Rightarrow> ('a, 'w) action" where
  "liftE r = (\<lambda>w. (r, w, []))"

text \<open>\<^verbatim>\<open>from module import name\<close>.\<close>

definition from_import :: "'w runtime \<Rightarrow> string \<Rightarrow> string \<Rightarrow> (unit, 'w) action" where
  "from_import rt modname name = (\<lambda>w.
     case import_from rt modname name w of
       (err, w') \<Rightarrow> ((case err of None \<Rightarrow> Inr () | Some e \<Rightarrow> Inl e), w',
                    [Imported modname name err]))"

definition new_prep :: "'w runtime \<Rightarrow> prep_class \<Rightarrow> string \<Rightarrow> (nat, 'w) action" where
  "new_prep rt cls cad_path = (\<lambda>w.
     case construct rt cls cad_path w of (r, w') \<Rightarrow> (r, w', [Constructed cls cad_path r]))"

definition invoke :: "'w runtime \<Rightarrow> method_call \<Rightarrow> (pydict, 'w) action" where
  "invoke rt c = (\<lambda>w. case call_method rt c w of (r, w') \<Rightarrow> (r, w', [Called c r]))"

text \<open>
  \<^verbatim>\<open>self.logger.info(msg)\<close>: the message is an event; what the handlers of the logger do
  with it is not part of the model.
\<close>

definition logger_info :: "string \<Rightarrow> (unit, 'w) action" where
  "logger_info msg = (\<lambda>w. (Inr (), w, [Log_info msg]))"

text \<open>The subscript \<^verbatim>\<open>d[k]\<close> of a dictionary.\<close>

definition getitem :: "pydict \<Rightarrow> string \<Rightarrow> exn + pyval" where
  "getitem d k = (case map_of d k of None \<Rightarrow> Inl (KeyError k) | Some v \<Rightarrow> Inr v)"

text \<open>
  The product \<^verbatim>\<open>x * c\<close> of a number and a float. The left operand is taken as a float:
  an integer is converted, which may raise.
\<close>

definition as_float :: "pynum \<Rightarrow> exn + pyfloat" where
  "as_float x =
     (case x of
        PInt i \<Rightarrow> (case float_of_int i of None \<Rightarrow> Inl OverflowError | Some y \<Rightarrow> Inr y)
      | PFloat y \<Rightarrow> Inr y)"

definition times_float :: "pynum \<Rightarrow> pyfloat \<Rightarrow> exn + pyval" where
  "times_float x c =
     (case as_float x of
        Inl e \<Rightarrow> Inl e
      | Inr y \<Rightarrow> Inr (PNum (PFloat (float_mul y c))))"

text \<open>
  \<^verbatim>\<open>open(path, "w", encoding=...)\<close> creates the file or truncates it; the file object is
  represented by its path.
\<close>

definition open_write :: "'w runtime \<Rightarrow> string \<Rightarrow> string \<Rightarrow> (string, 'w) action" where
  "open_write rt path encoding = (\<lambda>w.
     case open_w rt path w of
       Some e \<Rightarrow> (Inl e, w, [Opened path ''w'' encoding (Some e)])
     | None \<Rightarrow> (Inr path, w\<lparr>files := (files w)(path \<mapsto> [])\<rparr>, [Opened path ''w'' encoding None]))"

definition json_dump_to :: "'w runtime \<Rightarrow> pyval \<Rightarrow> string \<Rightarrow> nat \<Rightarrow> (unit, 'w) action" where
  "json_dump_to rt obj f indent = (\<lambda>w.
     case json_dump rt obj indent of
       (text, err) \<Rightarrow>
         ((case err of None \<Rightarrow> Inr () | Some e \<Rightarrow> Inl e),
          w\<lparr>files := (files w)(f \<mapsto> text)\<rparr>,
          [Dumped obj indent text err]))"

section \<open>The import\<close>

text \<open>
  The parameters of \<^verbatim>\<open>import_from_openstreet_map\<close> after the binding of the arguments,
  under the names of the source and with the types its docstring gives them. The three
  road parameters and the anchor are only handed on, so they are any value.
\<close>

record args =
  latitude_longitude :: "pyval"
  env_name :: string
  terrain_radius :: "pynum"
  include_osm_buildings :: bool
  including_osm_roads :: bool
  include_osm_trees :: bool
  import_in_aedt :: bool
  plot_before_importing :: bool
  z_offset :: "pyval"
  road_step :: "pyval"
  road_width :: "pyval"
  create_lightweigth_part :: bool
  save_nodes :: bool

text \<open>
  A call gives \<^verbatim>\<open>latitude_longitude\<close> and any of the other parameters; a parameter that
  is omitted takes the default of the signature (lines 22 to 37).
\<close>

record kwargs =
  kw_env_name :: "string option"
  kw_terrain_radius :: "pynum option"
  kw_include_osm_buildings :: "bool option"
  kw_including_osm_roads :: "bool option"
  kw_include_osm_trees :: "bool option"
  kw_import_in_aedt :: "bool option"
  kw_plot_before_importing :: "bool option"
  kw_z_offset :: "pyval option"
  kw_road_step :: "pyval option"
  kw_road_width :: "pyval option"
  kw_create_lightweigth_part :: "bool option"
  kw_save_nodes :: "bool option"

definition no_kwargs :: "kwargs" where
  "no_kwargs = \<lparr>kw_env_name = None, kw_terrain_radius = None,
     kw_include_osm_buildings = None, kw_including_osm_roads = None,
     kw_include_osm_trees = None, kw_import_in_aedt = None,
     kw_plot_before_importing = None, kw_z_offset = None, kw_road_step = None,
     kw_road_width = None, kw_create_lightweigth_part = None, kw_save_nodes = None\<rparr>"

definition bind_args :: "pyval \<Rightarrow> kwargs \<Rightarrow> args" where
  "bind_args lat_lon kw = \<lparr>
     latitude_longitude = lat_lon,
     env_name = (case kw_env_name kw of None \<Rightarrow> ''default'' | Some v \<Rightarrow> v),
     terrain_radius = (case kw_terrain_radius kw of None \<Rightarrow> PInt 500 | Some v \<Rightarrow> v),
     include_osm_buildings = (case kw_include_osm_buildings kw of None \<Rightarrow> True | Some v \<Rightarrow> v),
     including_osm_roads = (case kw_including_osm_roads kw of None \<Rightarrow> True | Some v \<Rightarrow> v),
     include_osm_trees = (case kw_include_osm_trees kw of None \<Rightarrow> True | Some v \<Rightarrow> v),
     import_in_aedt = (case kw_import_in_aedt kw of None \<Rightarrow> False | Some v \<Rightarrow> v),
     plot_before_importing = (case kw_plot_before_importing kw of None \<Rightarrow> False | Some v \<Rightarrow> v),
     z_offset = (case kw_z_offset kw of None \<Rightarrow> PNum (PInt 2) | Some v \<Rightarrow> v),
     road_step = (case kw_road_step kw of None \<Rightarrow> PNum (PInt 3) | Some v \<Rightarrow> v),
     road_width = (case kw_road_width kw of None \<Rightarrow> PNum (PInt 8) | Some v \<Rightarrow> v),
     create_lightweigth_part = (case kw_create_lightweigth_part kw of None \<Rightarrow> True | Some v \<Rightarrow> v),
     save_nodes = (case kw_save_nodes kw of None \<Rightarrow> False | Some v \<Rightarrow> v)\<rparr>"

text \<open>
  The body, lines 71 to 147, statement by statement. The four imports of lines 71 to 74
  run at every call, before anything else; the classes they bind are the \<open>construct\<close>
  and \<open>call_method\<close> of the run-time environment. The result is the dictionary
  \<^verbatim>\<open>scene\<close>.
\<close>

definition import_from_openstreet_map ::
    "'w runtime \<Rightarrow> args \<Rightarrow> (pydict, 'w) action" where
  "import_from_openstreet_map rt a =
    (bindM (from_import rt ''osm'' ''BuildingsPrep'') (\<lambda>_.
     bindM (from_import rt ''osm'' ''RoadPrep'') (\<lambda>_.
     bindM (from_import rt ''osm'' ''TerrainPrep'') (\<lambda>_.
     bindM (from_import rt ''osm'' ''TreesPrep'') (\<lambda>_.
     let output_path = ''.'';
         parts_dict = [] in
     bindM (new_prep rt TerrainPrep output_path) (\<lambda>terrain_prep.
     bindM (invoke rt (Get_terrain terrain_prep (latitude_longitude a)
                         (PNum (terrain_radius a)) 30)) (\<lambda>terrain_geo.
     bindM (liftE (getitem terrain_geo ''file_name'')) (\<lambda>terrain_stl.
     bindM (liftE (getitem terrain_geo ''mesh'')) (\<lambda>terrain_mesh.
     let terrain_dict = [(''file_name'', terrain_stl), (''color'', PStr ''brown''),
                         (''material'', PStr ''earth'')];
         parts_dict = dict_set parts_dict ''terrain'' (PDict terrain_dict) in
     bindM (if include_osm_buildings a then
              bindM (logger_info ''Generating Building Geometry'') (\<lambda>_.
              bindM (new_prep rt BuildingsPrep output_path) (\<lambda>building_prep.
              bindM (liftE (times_float (terrain_radius a) float_0_8)) (\<lambda>max_radius.
              bindM (invoke rt (Generate_buildings building_prep (latitude_longitude a)
                                  terrain_mesh max_radius)) (\<lambda>building_geo.
              bindM (liftE (getitem building_geo ''file_name'')) (\<lambda>building_stl.
              bindM (liftE (getitem building_geo ''mesh'')) (\<lambda>building_mesh.
              let building_dict = [(''file_name'', building_stl), (''color'', PStr ''grey''),
                                   (''material'', PStr ''concrete'')] in
              returnM (dict_set parts_dict ''buildings'' (PDict building_dict))))))))
            else returnM parts_dict) (\<lambda>parts_dict.
     bindM (if include_osm_trees a then
              bindM (logger_info ''Generating Tree Geometry'') (\<lambda>_.
              bindM (new_prep rt TreesPrep output_path) (\<lambda>tree_prep.
              bindM (liftE (times_float (terrain_radius a) float_0_8)) (\<lambda>max_radius.
              bindM (invoke rt (Generate_trees tree_prep (latitude_longitude a)
                                  terrain_mesh max_radius)) (\<lambda>tree_geo.
              bindM (liftE (getitem tree_geo ''file_name'')) (\<lambda>tree_stl.
              bindM (liftE (getitem tree_geo ''mesh'')) (\<lambda>tree_mesh.
              let tree_dict = [(''file_name'', tree_stl), (''color'', PStr ''green''),
                               (''material'', PStr ''wood'')] in
              returnM (dict_set parts_dict ''trees'' (PDict tree_dict))))))))
            else returnM parts_dict) (\<lambda>parts_dict.
     bindM (if including_osm_roads a then
              bindM (logger_info ''Generating Road Geometry'') (\<lambda>_.
              bindM (new_prep rt RoadPrep output_path) (\<lambda>road_prep.
              bindM (invoke rt (Create_roads road_prep (latitude_longitude a) terrain_mesh
                                  (PNum (terrain_radius a)) (z_offset a) (road_step a)
                                  (road_width a) (PBool (save_nodes a)))) (\<lambda>road_geo.
              bindM (liftE (getitem road_geo ''file_name'')) (\<lambda>road_stl.
              bindM (liftE (getitem road_geo ''mesh'')) (\<lambda>road_mesh.
              let road_dict = [(''file_name'', road_stl), (''color'', PStr ''black''),
                               (''material'', PStr ''asphalt'')] in
              returnM (dict_set parts_dict ''roads'' (PDict road_dict)))))))
            else returnM parts_dict) (\<lambda>parts_dict.
     let json_path = os_path_join rt output_path (env_name a @ ''.json'');
         scene = [(''name'', PStr (env_name a)),
                  (''version'', PNum (PInt 1)),
                  (''type'', PStr ''environment''),
                  (''center_lat_lon'', latitude_longitude a),
                  (''radius'', PNum (terrain_radius a)),
                  (''include_buildings'', PBool (include_osm_buildings a)),
                  (''include_roads'', PBool (including_osm_roads a)),
                  (''include_trees'', PBool (include_osm_trees a)),
                  (''parts'', PDict parts_dict)] in
     bindM (open_write rt json_path ''utf-8'') (\<lambda>f.
     bindM (json_dump_to rt (PDict scene) f 4) (\<lambda>_.
     bindM (logger_info ''Done...'') (\<lambda>_.
     returnM scene)))))))))))))))"

text \<open>A call with keyword arguments: the binding, then the body.\<close>

definition call_import_from_openstreet_map ::
    "'w runtime \<Rightarrow> pyval \<Rightarrow> kwargs \<Rightarrow> (pydict, 'w) action" where
  "call_import_from_openstreet_map rt lat_lon kw =
     import_from_openstreet_map rt (bind_args lat_lon kw)"

section \<open>The body in blocks\<close>

text \<open>
  The same statements, cut into the six blocks of the body: the imports (lines 71 to 74),
  the terrain (lines 81 to 86), the buildings (lines 89 to 98), the trees (lines 100 to
  109), the roads (lines 111 to 127) and the descriptor (lines 129 to 147). Lemma
  \<open>import_by_stages\<close> below shows that the body is the sequence of the six blocks; the
  properties are proved block by block.
\<close>

definition imports_stage :: "'w runtime \<Rightarrow> (unit, 'w) action" where
  "imports_stage rt =
     bindM (from_import rt ''osm'' ''BuildingsPrep'') (\<lambda>_.
     bindM (from_import rt ''osm'' ''RoadPrep'') (\<lambda>_.
     bindM (from_import rt ''osm'' ''TerrainPrep'') (\<lambda>_.
     from_import rt ''osm'' ''TreesPrep'')))"

definition terrain_stage ::
    "'w runtime \<Rightarrow> args \<Rightarrow> string \<Rightarrow> pydict \<Rightarrow> (pyval \<times> pydict, 'w) action" where
  "terrain_stage rt a output_path parts_dict =
     bindM (new_prep rt TerrainPrep output_path) (\<lambda>terrain_prep.
     bindM (invoke rt (Get_terrain terrain_prep (latitude_longitude a)
                         (PNum (terrain_radius a)) 30)) (\<lambda>terrain_geo.
     bindM (liftE (getitem terrain_geo ''file_name'')) (\<lambda>terrain_stl.
     bindM (liftE (getitem terrain_geo ''mesh'')) (\<lambda>terrain_mesh.
     let terrain_dict = [(''file_name'', terrain_stl), (''color'', PStr ''brown''),
                         (''material'', PStr ''earth'')];
         parts_dict = dict_set parts_dict ''terrain'' (PDict terrain_dict) in
     returnM (terrain_mesh, parts_dict)))))"

definition buildings_stage ::
    "'w runtime \<Rightarrow> args \<Rightarrow> string \<Rightarrow> pyval \<Rightarrow> pydict \<Rightarrow> (pydict, 'w) action" where
  "buildings_stage rt a output_path terrain_mesh parts_dict =
     (if include_osm_buildings a then
        bindM (logger_info ''Generating Building Geometry'') (\<lambda>_.
        bindM (new_prep rt BuildingsPrep output_path) (\<lambda>building_prep.
        bindM (liftE (times_float (terrain_radius a) float_0_8)) (\<lambda>max_radius.
        bindM (invoke rt (Generate_buildings building_prep (latitude_longitude a)
                            terrain_mesh max_radius)) (\<lambda>building_geo.
        bindM (liftE (getitem building_geo ''file_name'')) (\<lambda>building_stl.
        bindM (liftE (getitem building_geo ''mesh'')) (\<lambda>building_mesh.
        let building_dict = [(''file_name'', building_stl), (''color'', PStr ''grey''),
                             (''material'', PStr ''concrete'')] in
        returnM (dict_set parts_dict ''buildings'' (PDict building_dict))))))))
      else returnM parts_dict)"

definition trees_stage ::
    "'w runtime \<Rightarrow> args \<Rightarrow> string \<Rightarrow> pyval \<Rightarrow> pydict \<Rightarrow> (pydict, 'w) action" where
  "trees_stage rt a output_path terrain_mesh parts_dict =
     (if include_osm_trees a then
        bindM (logger_info ''Generating Tree Geometry'') (\<lambda>_.
        bindM (new_prep rt TreesPrep output_path) (\<lambda>tree_prep.
        bindM (liftE (times_float (terrain_radius a) float_0_8)) (\<lambda>max_radius.
        bindM (invoke rt (Generate_trees tree_prep (latitude_longitude a)
                            terrain_mesh max_radius)) (\<lambda>tree_geo.
        bindM (liftE (getitem tree_geo ''file_name'')) (\<lambda>tree_stl.
        bindM (liftE (getitem tree_geo ''mesh'')) (\<lambda>tree_mesh.
        let tree_dict = [(''file_name'', tree_stl), (''color'', PStr ''green''),
                         (''material'', PStr ''wood'')] in
        returnM (dict_set parts_dict ''trees'' (PDict tree_dict))))))))
      else returnM parts_dict)"

definition roads_stage ::
    "'w runtime \<Rightarrow> args \<Rightarrow> string \<Rightarrow> pyval \<Rightarrow> pydict \<Rightarrow> (pydict, 'w) action" where
  "roads_stage rt a output_path terrain_mesh parts_dict =
     (if including_osm_roads a then
        bindM (logger_info ''Generating Road Geometry'') (\<lambda>_.
        bindM (new_prep rt RoadPrep output_path) (\<lambda>road_prep.
        bindM (invoke rt (Create_roads road_prep (latitude_longitude a) terrain_mesh
                            (PNum (terrain_radius a)) (z_offset a) (road_step a)
                            (road_width a) (PBool (save_nodes a)))) (\<lambda>road_geo.
        bindM (liftE (getitem road_geo ''file_name'')) (\<lambda>road_stl.
        bindM (liftE (getitem road_geo ''mesh'')) (\<lambda>road_mesh.
        let road_dict = [(''file_name'', road_stl), (''color'', PStr ''black''),
                         (''material'', PStr ''asphalt'')] in
        returnM (dict_set parts_dict ''roads'' (PDict road_dict)))))))
      else returnM parts_dict)"

definition scene_of :: "args \<Rightarrow> pydict \<Rightarrow> pydict" where
  "scene_of a parts_dict =
     [(''name'', PStr (env_name a)),
      (''version'', PNum (PInt 1)),
      (''type'', PStr ''environment''),
      (''center_lat_lon'', latitude_longitude a),
      (''radius'', PNum (terrain_radius a)),
      (''include_buildings'', PBool (include_osm_buildings a)),
      (''include_roads'', PBool (including_osm_roads a)),
      (''include_trees'', PBool (include_osm_trees a)),
      (''parts'', PDict parts_dict)]"

definition write_stage ::
    "'w runtime \<Rightarrow> args \<Rightarrow> string \<Rightarrow> pydict \<Rightarrow> (pydict, 'w) action" where
  "write_stage rt a output_path parts_dict =
     (let json_path = os_path_join rt output_path (env_name a @ ''.json'');
          scene = scene_of a parts_dict in
      bindM (open_write rt json_path ''utf-8'') (\<lambda>f.
      bindM (json_dump_to rt (PDict scene) f 4) (\<lambda>_.
      bindM (logger_info ''Done...'') (\<lambda>_.
      returnM scene))))"

section \<open>Reading a trace\<close>

text \<open>The method calls of a trace, in order.\<close>

fun method_calls :: "event list \<Rightarrow> method_call list" where
  "method_calls [] = []"
| "method_calls (Called c r # t) = c # method_calls t"
| "method_calls (_ # t) = method_calls t"

datatype provider = Terrain | Buildings | Trees | Roads

fun provider_of :: "method_call \<Rightarrow> provider" where
  "provider_of (Get_terrain _ _ _ _) = Terrain"
| "provider_of (Generate_buildings _ _ _ _) = Buildings"
| "provider_of (Generate_trees _ _ _ _) = Trees"
| "provider_of (Create_roads _ _ _ _ _ _ _ _) = Roads"

text \<open>The keyword argument \<^verbatim>\<open>max_radius\<close> of a method call.\<close>

fun max_radius_arg :: "method_call \<Rightarrow> pyval" where
  "max_radius_arg (Get_terrain _ _ r _) = r"
| "max_radius_arg (Generate_buildings _ _ _ r) = r"
| "max_radius_arg (Generate_trees _ _ _ r) = r"
| "max_radius_arg (Create_roads _ _ _ r _ _ _ _) = r"

text \<open>The terrain mesh a method call is given: the second positional argument.\<close>

fun mesh_arg :: "method_call \<Rightarrow> pyval option" where
  "mesh_arg (Get_terrain _ _ _ _) = None"
| "mesh_arg (Generate_buildings _ _ m _) = Some m"
| "mesh_arg (Generate_trees _ _ m _) = Some m"
| "mesh_arg (Create_roads _ _ m _ _ _ _ _) = Some m"

text \<open>The providers in the order of the body, each optional one under its flag.\<close>

definition expected_calls :: "args \<Rightarrow> provider list" where
  "expected_calls a =
     [Terrain] @ (if include_osm_buildings a then [Buildings] else [])
       @ (if include_osm_trees a then [Trees] else [])
       @ (if including_osm_roads a then [Roads] else [])"

text \<open>The events on files: the opening of a file and the dump into it.\<close>

fun is_file_event :: "event \<Rightarrow> bool" where
  "is_file_event (Opened _ _ _ _) = True"
| "is_file_event (Dumped _ _ _ _) = True"
| "is_file_event _ = False"

fun dumped_objects :: "event list \<Rightarrow> pyval list" where
  "dumped_objects [] = []"
| "dumped_objects (Dumped obj _ _ _ # t) = obj # dumped_objects t"
| "dumped_objects (_ # t) = dumped_objects t"

text \<open>The paths opened in a trace, in order.\<close>

fun opened_paths :: "event list \<Rightarrow> string list" where
  "opened_paths [] = []"
| "opened_paths (Opened path _ _ _ # t) = path # opened_paths t"
| "opened_paths (_ # t) = opened_paths t"

text \<open>
  The path of the descriptor in the words of the specification,
  \<^verbatim>\<open><output_dir>/<env_name>.json\<close>, to be compared with the path the body computes.
\<close>

definition spec_json_path :: "string \<Rightarrow> string \<Rightarrow> string" where
  "spec_json_path output_dir name = output_dir @ ''/'' @ name @ ''.json''"

text \<open>
  A method call is one of the three optional calls of the body, with the arguments the
  body gives it, \<open>mesh\<close> being the terrain mesh: lines 92 to 94, 103 to 105, 114 to 122.
\<close>

fun optional_call :: "args \<Rightarrow> pyval \<Rightarrow> method_call \<Rightarrow> bool" where
  "optional_call a mesh (Get_terrain _ _ _ _) = False"
| "optional_call a mesh (Generate_buildings _ ll m r) =
     (include_osm_buildings a \<and> ll = latitude_longitude a \<and> m = mesh \<and>
      times_float (terrain_radius a) float_0_8 = Inr r)"
| "optional_call a mesh (Generate_trees _ ll m r) =
     (include_osm_trees a \<and> ll = latitude_longitude a \<and> m = mesh \<and>
      times_float (terrain_radius a) float_0_8 = Inr r)"
| "optional_call a mesh (Create_roads _ ll m r z s wd sn) =
     (including_osm_roads a \<and> ll = latitude_longitude a \<and> m = mesh \<and>
      r = PNum (terrain_radius a) \<and> z = z_offset a \<and> s = road_step a \<and>
      wd = road_width a \<and> sn = PBool (save_nodes a))"

section \<open>A sample environment\<close>

text \<open>
  Imports and providers that always succeed and leave the world as it is, the paths of
  POSIX, a file system that accepts every path, and a dump that writes the same text for
  every object.
\<close>

definition sample_geo :: "string \<Rightarrow> nat \<Rightarrow> pydict" where
  "sample_geo name h = [(''file_name'', PStr name), (''mesh'', PObj h)]"

definition sample_rt :: "unit runtime" where
  "sample_rt = \<lparr>
     import_from = (\<lambda>modname name w. (None, w)),
     construct = (\<lambda>cls p w.
       (Inr (case cls of TerrainPrep \<Rightarrow> 1 | BuildingsPrep \<Rightarrow> 2 | TreesPrep \<Rightarrow> 3 | RoadPrep \<Rightarrow> 4), w)),
     call_method = (\<lambda>c w.
       (Inr (case provider_of c of
               Terrain \<Rightarrow> sample_geo ''terrain.stl'' 10
             | Buildings \<Rightarrow> sample_geo ''buildings.stl'' 20
             | Trees \<Rightarrow> sample_geo ''trees.stl'' 30
             | Roads \<Rightarrow> sample_geo ''roads.stl'' 40), w)),
     os_path_join = posixpath_join,
     open_w = (\<lambda>p w. None),
     json_dump = (\<lambda>obj indent. (''{}'', None))\<rparr>"

text \<open>The same environment with a map server that cannot be reached.\<close>

definition offline_rt :: "unit runtime" where
  "offline_rt = sample_rt\<lparr>call_method := (\<lambda>c w. (Inl (Raised ''ConnectionError''), w))\<rparr>"

definition sample_world :: "unit world" where
  "sample_world = \<lparr>files = [''./default.json'' \<mapsto> ''old''], outside = ()\<rparr>"

definition sample_anchor :: "pyval" where
  "sample_anchor = PList [PNum (PFloat (Finite (163 / 4))), PNum (PFloat (Finite (- 74)))]"

text \<open>A call with the anchor alone, and a call that asks for the terrain only.\<close>

definition sample_args :: "args" where
  "sample_args = bind_args sample_anchor no_kwargs"

definition terrain_only_args :: "args" where
  "terrain_only_args = bind_args sample_anchor
     (no_kwargs\<lparr>kw_include_osm_buildings := Some False, kw_including_osm_roads := Some False,
        kw_include_osm_trees := Some False\<rparr>)"

text \<open>What the two calls give in the sample environment.\<close>

definition sample_imports :: "event list" where
  "sample_imports =
     [Imported ''osm'' ''BuildingsPrep'' None,
      Imported ''osm'' ''RoadPrep'' None,
      Imported ''osm'' ''TerrainPrep'' None,
      Imported ''osm'' ''TreesPrep'' None]"

definition sample_part :: "string \<Rightarrow> string \<Rightarrow> string \<Rightarrow> pyval" where
  "sample_part name color material =
     PDict [(''file_name'', PStr name), (''color'', PStr color), (''material'', PStr material)]"

definition written_world :: "unit world" where
  "written_world = sample_world\<lparr>files := (files sample_world)(''./default.json'' \<mapsto> ''{}'')\<rparr>"

definition terrain_only_scene :: "pydict" where
  "terrain_only_scene =
     scene_of terrain_only_args [(''terrain'', sample_part ''terrain.stl'' ''brown'' ''earth'')]"

definition terrain_only_trace :: "event list" where
  "terrain_only_trace = sample_imports @
     [Constructed TerrainPrep ''.'' (Inr 1),
      Called (Get_terrain 1 sample_anchor (PNum (PInt 500)) 30)
        (Inr (sample_geo ''terrain.stl'' 10)),
      Opened ''./default.json'' ''w'' ''utf-8'' None,
      Dumped (PDict terrain_only_scene) 4 ''{}'' None,
      Log_info ''Done...'']"

definition sample_scene :: "pydict" where
  "sample_scene =
     scene_of sample_args
       [(''terrain'', sample_part ''terrain.stl'' ''brown'' ''earth''),
        (''buildings'', sample_part ''buildings.stl'' ''grey'' ''concrete''),
        (''trees'', sample_part ''trees.stl'' ''green'' ''wood''),
        (''roads'', sample_part ''roads.stl'' ''black'' ''asphalt'')]"

definition sample_trace :: "event list" where
  "sample_trace = sample_imports @
     [Constructed TerrainPrep ''.'' (Inr 1),
      Called (Get_terrain 1 sample_anchor (PNum (PInt 500)) 30)
        (Inr (sample_geo ''terrain.stl'' 10)),
      Log_info ''Generating Building Geometry'',
      Constructed BuildingsPrep ''.'' (Inr 2),
      Called (Generate_buildings 2 sample_anchor (PObj 10) (PNum (PFloat (Finite 400))))
        (Inr (sample_geo ''buildings.stl'' 20)),
      Log_info ''Generating Tree Geometry'',
      Constructed TreesPrep ''.'' (Inr 3),
      Called (Generate_trees 3 sample_anchor (PObj 10) (PNum (PFloat (Finite 400))))
        (Inr (sample_geo ''trees.stl'' 30)),
      Log_info ''Generating Road Geometry'',
      Constructed RoadPrep ''.'' (Inr 4),
      Called (Create_roads 4 sample_anchor (PObj 10) (PNum (PInt 500)) (PNum (PInt 2))
                (PNum (PInt 3)) (PNum (PInt 8)) (PBool False))
        (Inr (sample_geo ''roads.stl'' 40)),
      Opened ''./default.json'' ''w'' ''utf-8'' None,
      Dumped (PDict sample_scene) 4 ''{}'' None,
      Log_info ''Done...'']"

text \<open>A call for the terrain only, with an environment name that is an absolute path.\<close>

definition absolute_name_args :: "args" where
  "absolute_name_args = terrain_only_args\<lparr>env_name := ''/tmp/x''\<rparr>"

definition absolute_name_scene :: "pydict" where
  "absolute_name_scene =
     scene_of absolute_name_args [(''terrain'', sample_part ''terrain.stl'' ''brown'' ''earth'')]"

section \<open>Float arithmetic\<close>

text \<open>The exponent brackets the number, and rounding to an integer moves by a half at most.\<close>

lemma floor_log2_bounds:
  assumes "0 < q"
  shows "2 powi (floor_log2 q) \<le> q \<and> q < 2 powi (floor_log2 q + 1)"
proof (cases "1 \<le> q")
  case True
  define n where "n = \<lfloor>q\<rfloor>"
  have n1: "1 \<le> n" using True by (simp add: n_def le_floor_iff)
  then have n0: "0 < n" by simp
  from bitlen_bounds [OF n0] have b: "2 ^ nat (bitlen n - 1) \<le> n" "n < 2 ^ nat (bitlen n)"
    by simp_all
  have l1: "1 \<le> bitlen n" using n0 by (simp add: bitlen_def floorlog_def)
  have lo: "(2::rat) powi (bitlen n - 1) \<le> q"
  proof -
    have "(2::rat) powi (bitlen n - 1) = 2 ^ nat (bitlen n - 1)"
      using l1 by (simp add: power_int_def)
    also have "\<dots> = of_int (2 ^ nat (bitlen n - 1))" by simp
    also have "\<dots> \<le> of_int n" using b(1) by (simp only: of_int_le_iff)
    also have "\<dots> \<le> q" by (simp add: n_def)
    finally show ?thesis .
  qed
  have hi: "q < (2::rat) powi (bitlen n)"
  proof -
    have "q < of_int (n + 1)" unfolding n_def by (simp; linarith)
    also have "\<dots> \<le> of_int (2 ^ nat (bitlen n))" using b(2) by (simp only: of_int_le_iff)
    also have "\<dots> = (2::rat) powi (bitlen n)" using l1 by (simp add: power_int_def)
    finally show ?thesis .
  qed
  from lo hi True show ?thesis by (simp add: floor_log2_def n_def)
next
  case False
  then have q1: "q < 1" by simp
  define x where "x = 1 / q"
  have x1: "1 < x" using assms q1 by (simp add: x_def)
  define n where "n = \<lceil>x\<rceil>"
  have n2: "2 \<le> n" using x1 by (simp add: n_def; linarith)
  then have m0: "0 < n - 1" by simp
  from bitlen_bounds [OF m0] have b: "2 ^ nat (bitlen (n - 1) - 1) \<le> n - 1" "n - 1 < 2 ^ nat (bitlen (n - 1))"
    by simp_all
  define j where "j = bitlen (n - 1)"
  have j1: "1 \<le> j" using m0 by (simp add: j_def bitlen_def floorlog_def)
  have xn: "x \<le> of_int n" "of_int (n - 1) < x"
    using ceiling_correct [of x] unfolding n_def by simp_all
  have xhi: "x \<le> 2 ^ nat j"
  proof -
    have nj: "n \<le> 2 ^ nat j" using b(2) by (simp add: j_def)
    note xn(1)
    also have "(of_int n :: rat) \<le> of_int (2 ^ nat j)"
      using nj by (simp only: of_int_le_iff)
    also have "\<dots> = 2 ^ nat j" by simp
    finally show ?thesis .
  qed
  have xlo: "2 ^ nat (j - 1) < x"
  proof -
    have nj: "2 ^ nat (j - 1) \<le> n - 1" using b(1) by (simp add: j_def)
    have "(2::rat) ^ nat (j - 1) = of_int (2 ^ nat (j - 1))" by simp
    also have "\<dots> \<le> of_int (n - 1)"
      using nj by (simp only: of_int_le_iff)
    also note xn(2)
    finally show ?thesis .
  qed
  have lo: "(2::rat) powi (- j) \<le> q"
  proof -
    have "(2::rat) powi (- j) = 1 / 2 ^ nat j" using j1 by (simp add: power_int_def field_simps)
    also have "\<dots> \<le> 1 / x" using xhi x1 by (simp add: frac_le)
    also have "\<dots> = q" by (simp add: x_def)
    finally show ?thesis .
  qed
  have hi: "q < (2::rat) powi (- j + 1)"
  proof -
    have "q = 1 / x" by (simp add: x_def)
    also have "\<dots> < 1 / 2 ^ nat (j - 1)" using xlo by (simp add: frac_less2)
    also have "\<dots> = (2::rat) powi (- j + 1)"
    proof (cases "j = 1")
      case True then show ?thesis by simp
    next
      case False
      with j1 have "- j + 1 < 0" by simp
      moreover have "nat (- (- j + 1)) = nat (j - 1)" by simp
      ultimately show ?thesis by (simp add: power_int_def field_simps)
    qed
    finally show ?thesis .
  qed
  from lo hi False show ?thesis by (simp add: floor_log2_def n_def x_def j_def)
qed

lemma round_half_even_error: "\<bar>of_int (round_half_even x) - x\<bar> \<le> 1 / 2"
proof -
  have "of_int \<lfloor>x\<rfloor> \<le> x" "x < of_int \<lfloor>x\<rfloor> + 1" by linarith+
  then show ?thesis
    unfolding round_half_even_def Let_def by (auto simp: abs_le_iff)
qed

text \<open>In the normal range, rounding to binary64 has a relative error of \<open>1 / 2 ^ 53\<close> at most.\<close>

lemma round_double_error:
  assumes "2 powi (- 1022) \<le> \<bar>q\<bar>"
  shows "\<bar>round_double q - q\<bar> \<le> \<bar>q\<bar> / 2 ^ 53"
proof -
  define a where "a = \<bar>q\<bar>"
  have a0: "0 < a"
  proof -
    have "(0::rat) < 2 powi (- 1022)" by simp
    with assms show ?thesis unfolding a_def by linarith
  qed
  then have q0: "q \<noteq> 0" by (auto simp: a_def)
  define fl where "fl = floor_log2 a"
  from floor_log2_bounds [OF a0] have fb: "2 powi fl \<le> a" "a < 2 powi (fl + 1)"
    by (simp_all add: fl_def)
  have fl_lo: "- 1022 \<le> fl"
  proof (rule ccontr)
    assume "\<not> - 1022 \<le> fl"
    then have "fl + 1 \<le> - 1022" by simp
    then have "(2::rat) powi (fl + 1) \<le> 2 powi (- 1022)"
      by (intro power_int_increasing) simp_all
    with fb(2) assms show False unfolding a_def by linarith
  qed
  define e where "e = fl - 52"
  have e_max: "max (floor_log2 \<bar>q\<bar> - 52) (- 1074) = e"
    using fl_lo by (simp add: e_def fl_def a_def)
  define p where "p = (2::rat) powi e"
  have p0: "0 < p" by (simp add: p_def)
  have p_fl: "p * 2 ^ 52 = 2 powi fl"
  proof -
    have "(2::rat) powi fl = 2 powi (e + 52)" by (simp add: e_def)
    also have "\<dots> = 2 powi e * 2 powi 52" by (subst power_int_add) simp_all
    finally show ?thesis by (simp add: p_def)
  qed
  define m where "m = round_half_even (a / p)"
  have "\<bar>of_int m - a / p\<bar> \<le> 1 / 2"
    unfolding m_def by (rule round_half_even_error)
  then have "\<bar>of_int m - a / p\<bar> * p \<le> 1 / 2 * p"
    using p0 by (intro mult_right_mono) simp_all
  moreover have "\<bar>of_int m - a / p\<bar> * p = \<bar>of_int m * p - a\<bar>"
  proof -
    have "\<bar>of_int m - a / p\<bar> * p = \<bar>(of_int m - a / p) * p\<bar>"
      using p0 by (simp add: abs_mult)
    also have "(of_int m - a / p) * p = of_int m * p - a"
      using p0 by (simp add: field_simps)
    finally show ?thesis .
  qed
  ultimately have err: "\<bar>of_int m * p - a\<bar> \<le> p / 2" by simp
  have "p / 2 \<le> a / 2 ^ 53"
  proof -
    have "p * 2 ^ 52 \<le> a" using fb(1) p_fl by simp
    then have "p \<le> a / 2 ^ 52" by (simp add: field_simps)
    then show ?thesis by simp
  qed
  with err have bound: "\<bar>of_int m * p - a\<bar> \<le> a / 2 ^ 53" by linarith
  have rd: "round_double q = sgn q * (of_int m * p)"
    using q0 unfolding round_double_def Let_def e_max m_def p_def a_def by simp
  have "q = sgn q * a" by (simp add: a_def sgn_mult_abs)
  then have "round_double q - q = sgn q * (of_int m * p - a)"
    using rd by (simp add: algebra_simps)
  then have "\<bar>round_double q - q\<bar> = \<bar>sgn q\<bar> * \<bar>of_int m * p - a\<bar>"
    by (simp add: abs_mult)
  also have "\<bar>sgn q\<bar> = 1" using q0 by (simp add: abs_sgn_eq)
  finally show ?thesis using bound by (simp add: a_def)
qed

text \<open>
  The literal \<^verbatim>\<open>0.8\<close> is the float \<^verbatim>\<open>0x1.999999999999ap-1\<close>, and the products that Python
  prints as \<^verbatim>\<open>3 * 0.8 = 2.4000000000000004\<close> and \<^verbatim>\<open>500 * 0.8 = 400.0\<close>.
\<close>

lemma float_0_8_value: "float_0_8 = Finite (3602879701896397 / 4503599627370496)"
  by code_simp

lemma three_times_0_8:
  "float_mul (Finite 3) float_0_8 = Finite (5404319552844596 / 2251799813685248)"
  by code_simp

lemma sample_as_float: "as_float (PInt 500) = Inr (Finite 500)"
  by code_simp

lemma sample_product: "float_mul (Finite 500) float_0_8 = Finite 400"
  by code_simp

lemma sample_radius: "times_float (PInt 500) float_0_8 = Inr (PNum (PFloat (Finite 400)))"
  by (simp add: times_float_def sample_as_float sample_product)

text \<open>
  The product of a finite float in the normal range and of the literal is finite, and is
  eight tenths of the float up to a relative error of \<open>1 / 2 ^ 52\<close>.
\<close>

lemma float_mul_0_8_bound:
  assumes lo: "1 / 2 ^ 1021 \<le> \<bar>q\<bar>" and hi: "\<bar>q\<bar> < 2 ^ 1024"
  shows "\<exists>p. float_mul (Finite q) float_0_8 = Finite p \<and> \<bar>p - 4 / 5 * q\<bar> \<le> \<bar>q\<bar> / 2 ^ 52"
proof -
  define c :: rat where "c = 3602879701896397 / 4503599627370496"
  have c_lo: "4 / 5 \<le> c" and c_hi: "c \<le> 4 / 5 + 1 / (5 * 2 ^ 52)" and c_half: "1 / 2 \<le> c"
    and c_pos: "0 < c" and c1: "c * (1 + 1 / 2 ^ 53) < 1"
    by (simp_all add: c_def)
  define a where "a = \<bar>q\<bar>"
  have a0: "0 < a"
  proof -
    have "(0::rat) < 1 / 2 ^ 1021" by simp
    with lo show ?thesis unfolding a_def by linarith
  qed
  then have q0: "q \<noteq> 0" by (auto simp: a_def)
  define r where "r = round_double (q * c)"
  have abs_qc: "\<bar>q * c\<bar> = a * c" using c_pos by (simp add: abs_mult a_def)
  have "(2::rat) powi (- 1022) = 1 / 2 ^ 1021 * (1 / 2)"
    by (simp add: power_int_def field_simps)
  also have "\<dots> \<le> a * c"
    using lo c_half a0 unfolding a_def by (intro mult_mono) simp_all
  finally have "2 powi (- 1022) \<le> \<bar>q * c\<bar>" by (simp add: abs_qc)
  from round_double_error [OF this] have err: "\<bar>r - q * c\<bar> \<le> a * c / 2 ^ 53"
    by (simp add: r_def abs_qc)
  have u: "(0::rat) < 1 / 2 ^ 53" "(1::rat) / 2 ^ 53 < 1" by simp_all
  have ac: "0 < a * c" using a0 c_pos by simp
  have r_hi: "\<bar>r\<bar> < 2 ^ 1024"
  proof -
    have "\<bar>r\<bar> \<le> \<bar>r - q * c\<bar> + \<bar>q * c\<bar>" by linarith
    also have "\<dots> \<le> a * c / 2 ^ 53 + a * c" using err by (simp add: abs_qc)
    also have "\<dots> = a * (c * (1 + 1 / 2 ^ 53))" by (simp add: algebra_simps)
    also have "\<dots> < a * 1" using c1 a0 by (intro mult_strict_left_mono) simp_all
    also have "\<dots> < 2 ^ 1024" using hi by (simp add: a_def)
    finally show ?thesis .
  qed
  have r_nz: "r \<noteq> 0"
  proof
    assume "r = 0"
    with err have "a * c \<le> a * c / 2 ^ 53" by (simp add: abs_qc)
    then have "a * c * 1 \<le> a * c * (1 / 2 ^ 53)" by simp
    then have "(1::rat) \<le> 1 / 2 ^ 53" using ac by (simp only: mult_le_cancel_left_pos)
    then show False by simp
  qed
  have neq: "float_0_8 = Finite c" by (simp add: float_0_8_value c_def)
  have c_nz: "c \<noteq> 0" using c_pos by simp
  have mul: "float_mul (Finite q) float_0_8 = Finite r"
    using q0 c_nz r_hi r_nz
    by (simp add: neq float_mul_def to_double_def Let_def r_def [symmetric])
  have "\<bar>r - 4 / 5 * q\<bar> \<le> \<bar>r - q * c\<bar> + \<bar>q * c - 4 / 5 * q\<bar>" by linarith
  also have "\<bar>q * c - 4 / 5 * q\<bar> = a * (c - 4 / 5)"
  proof -
    have "q * c - 4 / 5 * q = q * (c - 4 / 5)" by (simp add: algebra_simps)
    then show ?thesis using c_lo by (simp add: abs_mult a_def)
  qed
  also have "\<bar>r - q * c\<bar> + a * (c - 4 / 5) \<le> a * c / 2 ^ 53 + a * (c - 4 / 5)"
    using err by simp
  also have "\<dots> = a * (c / 2 ^ 53 + (c - 4 / 5))" by (simp add: algebra_simps)
  also have "\<dots> \<le> a * (1 / 2 ^ 52)"
  proof -
    have "c / 2 ^ 53 + (c - 4 / 5) \<le> 1 / 2 ^ 52" by (simp add: c_def)
    then show ?thesis using a0 by (intro mult_left_mono) simp_all
  qed
  finally have "\<bar>r - 4 / 5 * q\<bar> \<le> a / 2 ^ 52" by simp
  with mul show ?thesis by (auto simp: a_def)
qed

section \<open>Sequencing\<close>

text \<open>
  The laws of sequencing, the body as the sequence of its blocks, and what each block has
  done when it returns (\<open>_Inr\<close>) and when it raises (\<open>_Inl\<close>).
\<close>

lemma bindM_assoc: "bindM (bindM m f) g = bindM m (\<lambda>x. bindM (f x) g)"
  by (rule ext) (simp add: bindM_def split: prod.splits sum.splits)

lemma returnM_bindM: "bindM (returnM x) f = f x"
  by (rule ext) (simp add: bindM_def returnM_def split: prod.splits)

lemma import_by_stages:
  "import_from_openstreet_map rt a =
     bindM (imports_stage rt) (\<lambda>_.
     bindM (terrain_stage rt a ''.'' []) (\<lambda>(terrain_mesh, parts_dict).
     bindM (buildings_stage rt a ''.'' terrain_mesh parts_dict) (\<lambda>parts_dict.
     bindM (trees_stage rt a ''.'' terrain_mesh parts_dict) (\<lambda>parts_dict.
     bindM (roads_stage rt a ''.'' terrain_mesh parts_dict) (\<lambda>parts_dict.
     write_stage rt a ''.'' parts_dict)))))"
  unfolding import_from_openstreet_map_def imports_stage_def terrain_stage_def
    buildings_stage_def trees_stage_def roads_stage_def write_stage_def scene_of_def Let_def
    bindM_assoc returnM_bindM prod.case
  by (rule refl)

lemma method_calls_append: "method_calls (s @ t) = method_calls s @ method_calls t"
  by (induction s rule: method_calls.induct) simp_all

lemma bindM_Inr_iff:
  "bindM m f w = (Inr y, w', t) \<longleftrightarrow>
     (\<exists>x w1 t1 t2. m w = (Inr x, w1, t1) \<and> f x w1 = (Inr y, w', t2) \<and> t = t1 @ t2)"
  by (auto simp: bindM_def split: prod.splits sum.splits)

lemma bindM_Inl_iff:
  "bindM m f w = (Inl e, w', t) \<longleftrightarrow>
     m w = (Inl e, w', t) \<or>
     (\<exists>x w1 t1 t2. m w = (Inr x, w1, t1) \<and> f x w1 = (Inl e, w', t2) \<and> t = t1 @ t2)"
  by (auto simp: bindM_def split: prod.splits sum.splits)

lemma returnM_iff: "returnM x w = (r, w', t) \<longleftrightarrow> r = Inr x \<and> w' = w \<and> t = []"
  by (auto simp: returnM_def)

lemma liftE_iff: "liftE r w = (r', w', t) \<longleftrightarrow> r = r' \<and> w' = w \<and> t = []"
  by (auto simp: liftE_def)

lemma logger_info_iff:
  "logger_info msg w = (r, w', t) \<longleftrightarrow> r = Inr () \<and> w' = w \<and> t = [Log_info msg]"
  by (auto simp: logger_info_def)

lemma new_prep_iff:
  "new_prep rt cls p w = (r, w', t) \<longleftrightarrow>
     construct rt cls p w = (r, w') \<and> t = [Constructed cls p r]"
  by (auto simp: new_prep_def split: prod.splits)

lemma invoke_iff:
  "invoke rt c w = (r, w', t) \<longleftrightarrow> call_method rt c w = (r, w') \<and> t = [Called c r]"
  by (auto simp: invoke_def split: prod.splits)

lemma from_import_iff:
  "from_import rt modname name w = (r, w', t) \<longleftrightarrow>
     (\<exists>err. import_from rt modname name w = (err, w') \<and>
        r = (case err of None \<Rightarrow> Inr () | Some e \<Rightarrow> Inl e) \<and>
        t = [Imported modname name err])"
  by (auto simp: from_import_def split: prod.splits)

lemmas step_iffs = bindM_Inr_iff bindM_Inl_iff returnM_iff liftE_iff logger_info_iff
  new_prep_iff invoke_iff

text \<open>The imports call no provider and touch no file, whether they raise or not.\<close>

lemma imports_stage_trace:
  assumes "imports_stage rt w = (r, w', t)"
  shows "method_calls t = [] \<and> filter is_file_event t = [] \<and>
         dumped_objects t = [] \<and> opened_paths t = [] \<and>
         (\<forall>cls p out. Constructed cls p out \<notin> set t)"
  using assms unfolding imports_stage_def
  by (cases r) (auto simp: step_iffs from_import_iff)

lemma terrain_stage_Inr:
  assumes "terrain_stage rt a op pd w = (Inr (mesh, pd'), w', t)"
  shows "\<exists>tp w0 geo stl.
           construct rt TerrainPrep op w = (Inr tp, w0) \<and>
           call_method rt (Get_terrain tp (latitude_longitude a) (PNum (terrain_radius a)) 30) w0
             = (Inr geo, w') \<and>
           getitem geo ''file_name'' = Inr stl \<and> getitem geo ''mesh'' = Inr mesh \<and>
           pd' = dict_set pd ''terrain'' (PDict [(''file_name'', stl),
                    (''color'', PStr ''brown''), (''material'', PStr ''earth'')]) \<and>
           t = [Constructed TerrainPrep op (Inr tp),
                Called (Get_terrain tp (latitude_longitude a) (PNum (terrain_radius a)) 30)
                  (Inr geo)]"
  using assms unfolding terrain_stage_def Let_def
  by (auto simp: step_iffs)

lemma terrain_stage_Inl:
  assumes "terrain_stage rt a op pd w = (Inl e, w', t)"
  shows "(\<exists>out. t = [Constructed TerrainPrep op out]) \<or>
         (\<exists>tp out. t = [Constructed TerrainPrep op (Inr tp),
                Called (Get_terrain tp (latitude_longitude a) (PNum (terrain_radius a)) 30) out])"
  using assms unfolding terrain_stage_def Let_def
  by (auto simp: step_iffs)

lemma buildings_stage_Inr:
  assumes "buildings_stage rt a op mesh pd w = (Inr pd', w', t)"
  shows "if include_osm_buildings a then
           (\<exists>bp w0 mr geo stl bm.
              construct rt BuildingsPrep op w = (Inr bp, w0) \<and>
              times_float (terrain_radius a) float_0_8 = Inr mr \<and>
              call_method rt (Generate_buildings bp (latitude_longitude a) mesh mr) w0
                = (Inr geo, w') \<and>
              getitem geo ''file_name'' = Inr stl \<and> getitem geo ''mesh'' = Inr bm \<and>
              pd' = dict_set pd ''buildings'' (PDict [(''file_name'', stl),
                      (''color'', PStr ''grey''), (''material'', PStr ''concrete'')]) \<and>
              t = [Log_info ''Generating Building Geometry'',
                   Constructed BuildingsPrep op (Inr bp),
                   Called (Generate_buildings bp (latitude_longitude a) mesh mr) (Inr geo)])
         else pd' = pd \<and> w' = w \<and> t = []"
  using assms unfolding buildings_stage_def Let_def
  by (auto simp: step_iffs split: if_splits)

lemma buildings_stage_Inl:
  assumes "buildings_stage rt a op mesh pd w = (Inl e, w', t)"
  shows "include_osm_buildings a \<and>
         (method_calls t = [] \<or>
          (\<exists>bp mr. times_float (terrain_radius a) float_0_8 = Inr mr \<and>
             method_calls t = [Generate_buildings bp (latitude_longitude a) mesh mr]))"
  using assms unfolding buildings_stage_def Let_def
  by (auto simp: step_iffs split: if_splits)

lemma trees_stage_Inr:
  assumes "trees_stage rt a op mesh pd w = (Inr pd', w', t)"
  shows "if include_osm_trees a then
           (\<exists>tp w0 mr geo stl tm.
              construct rt TreesPrep op w = (Inr tp, w0) \<and>
              times_float (terrain_radius a) float_0_8 = Inr mr \<and>
              call_method rt (Generate_trees tp (latitude_longitude a) mesh mr) w0
                = (Inr geo, w') \<and>
              getitem geo ''file_name'' = Inr stl \<and> getitem geo ''mesh'' = Inr tm \<and>
              pd' = dict_set pd ''trees'' (PDict [(''file_name'', stl),
                      (''color'', PStr ''green''), (''material'', PStr ''wood'')]) \<and>
              t = [Log_info ''Generating Tree Geometry'',
                   Constructed TreesPrep op (Inr tp),
                   Called (Generate_trees tp (latitude_longitude a) mesh mr) (Inr geo)])
         else pd' = pd \<and> w' = w \<and> t = []"
  using assms unfolding trees_stage_def Let_def
  by (auto simp: step_iffs split: if_splits)

lemma trees_stage_Inl:
  assumes "trees_stage rt a op mesh pd w = (Inl e, w', t)"
  shows "include_osm_trees a \<and>
         (method_calls t = [] \<or>
          (\<exists>tp mr. times_float (terrain_radius a) float_0_8 = Inr mr \<and>
             method_calls t = [Generate_trees tp (latitude_longitude a) mesh mr]))"
  using assms unfolding trees_stage_def Let_def
  by (auto simp: step_iffs split: if_splits)

lemma roads_stage_Inr:
  assumes "roads_stage rt a op mesh pd w = (Inr pd', w', t)"
  shows "if including_osm_roads a then
           (\<exists>rp w0 geo stl rm.
              construct rt RoadPrep op w = (Inr rp, w0) \<and>
              call_method rt (Create_roads rp (latitude_longitude a) mesh (PNum (terrain_radius a))
                           (z_offset a) (road_step a) (road_width a) (PBool (save_nodes a))) w0
                = (Inr geo, w') \<and>
              getitem geo ''file_name'' = Inr stl \<and> getitem geo ''mesh'' = Inr rm \<and>
              pd' = dict_set pd ''roads'' (PDict [(''file_name'', stl),
                      (''color'', PStr ''black''), (''material'', PStr ''asphalt'')]) \<and>
              t = [Log_info ''Generating Road Geometry'',
                   Constructed RoadPrep op (Inr rp),
                   Called (Create_roads rp (latitude_longitude a) mesh (PNum (terrain_radius a))
                           (z_offset a) (road_step a) (road_width a) (PBool (save_nodes a)))
                     (Inr geo)])
         else pd' = pd \<and> w' = w \<and> t = []"
  using assms unfolding roads_stage_def Let_def
  by (auto simp: step_iffs split: if_splits)

lemma roads_stage_Inl:
  assumes "roads_stage rt a op mesh pd w = (Inl e, w', t)"
  shows "including_osm_roads a \<and>
         (method_calls t = [] \<or>
          (\<exists>rp. method_calls t =
             [Create_roads rp (latitude_longitude a) mesh (PNum (terrain_radius a))
                (z_offset a) (road_step a) (road_width a) (PBool (save_nodes a))]))"
  using assms unfolding roads_stage_def Let_def
  by (auto simp: step_iffs split: if_splits)

lemma open_write_iff:
  "open_write rt path enc w = (r, w', t) \<longleftrightarrow>
     (case open_w rt path w of
        Some e \<Rightarrow> r = Inl e \<and> w' = w \<and> t = [Opened path ''w'' enc (Some e)]
      | None \<Rightarrow> r = Inr path \<and> w' = w\<lparr>files := (files w)(path \<mapsto> [])\<rparr> \<and>
                 t = [Opened path ''w'' enc None])"
  by (auto simp: open_write_def split: option.splits)

lemma json_dump_to_iff:
  "json_dump_to rt obj f indent w = (r, w', t) \<longleftrightarrow>
     r = (case snd (json_dump rt obj indent) of None \<Rightarrow> Inr () | Some e \<Rightarrow> Inl e) \<and>
     w' = w\<lparr>files := (files w)(f \<mapsto> fst (json_dump rt obj indent))\<rparr> \<and>
     t = [Dumped obj indent (fst (json_dump rt obj indent)) (snd (json_dump rt obj indent))]"
  by (auto simp: json_dump_to_def split: prod.splits)

lemma write_stage_Inr:
  assumes "write_stage rt a op pd w = (Inr scene, w', t)"
  shows "scene = scene_of a pd \<and>
         open_w rt (os_path_join rt op (env_name a @ ''.json'')) w = None \<and>
         snd (json_dump rt (PDict scene) 4) = None \<and>
         w' = w\<lparr>files := (files w)(os_path_join rt op (env_name a @ ''.json'') \<mapsto>
                   fst (json_dump rt (PDict scene) 4))\<rparr> \<and>
         t = [Opened (os_path_join rt op (env_name a @ ''.json'')) ''w'' ''utf-8'' None,
              Dumped (PDict scene) 4 (fst (json_dump rt (PDict scene) 4)) None,
              Log_info ''Done...'']"
  using assms unfolding write_stage_def Let_def
  by (auto simp: step_iffs open_write_iff json_dump_to_iff split: option.splits)

lemma write_stage_calls:
  assumes "write_stage rt a op pd w = (r, w', t)"
  shows "method_calls t = []"
  using assms unfolding write_stage_def Let_def
  by (cases r) (auto simp: step_iffs open_write_iff json_dump_to_iff split: option.splits)

text \<open>
  A run stops in one of the six blocks: the case distinction that the properties of
  every run, completed or not, are proved by.
\<close>

lemma bindM_iff:
  "bindM m f w = (r, w', t) \<longleftrightarrow>
     (\<exists>e. m w = (Inl e, w', t) \<and> r = Inl e) \<or>
     (\<exists>x w1 t1 t2. m w = (Inr x, w1, t1) \<and> f x w1 = (r, w', t2) \<and> t = t1 @ t2)"
  by (auto simp: bindM_def split: prod.splits sum.splits)

lemma import_run_cases:
  assumes "import_from_openstreet_map rt a w = (r, w', tr)"
  obtains
    (importing) e where "r = Inl e" "imports_stage rt w = (Inl e, w', tr)"
  | (terrain) e wi ti t0 where "r = Inl e"
      "terrain_stage rt a ''.'' [] wi = (Inl e, w', t0)"
      "tr = ti @ t0"
      "imports_stage rt w = (Inr (), wi, ti)"
  | (buildings) e mesh pd0 w1 t0 t1 wi ti where "r = Inl e"
      "terrain_stage rt a ''.'' [] wi = (Inr (mesh, pd0), w1, t0)"
      "buildings_stage rt a ''.'' mesh pd0 w1 = (Inl e, w', t1)"
      "tr = ti @ t0 @ t1"
      "imports_stage rt w = (Inr (), wi, ti)"
  | (trees) e mesh pd0 w1 t0 pd1 w2 t1 t2 wi ti where "r = Inl e"
      "terrain_stage rt a ''.'' [] wi = (Inr (mesh, pd0), w1, t0)"
      "buildings_stage rt a ''.'' mesh pd0 w1 = (Inr pd1, w2, t1)"
      "trees_stage rt a ''.'' mesh pd1 w2 = (Inl e, w', t2)"
      "tr = ti @ t0 @ t1 @ t2"
      "imports_stage rt w = (Inr (), wi, ti)"
  | (roads) e mesh pd0 w1 t0 pd1 w2 t1 pd2 w3 t2 t3 wi ti where "r = Inl e"
      "terrain_stage rt a ''.'' [] wi = (Inr (mesh, pd0), w1, t0)"
      "buildings_stage rt a ''.'' mesh pd0 w1 = (Inr pd1, w2, t1)"
      "trees_stage rt a ''.'' mesh pd1 w2 = (Inr pd2, w3, t2)"
      "roads_stage rt a ''.'' mesh pd2 w3 = (Inl e, w', t3)"
      "tr = ti @ t0 @ t1 @ t2 @ t3"
      "imports_stage rt w = (Inr (), wi, ti)"
  | (writing) mesh pd0 w1 t0 pd1 w2 t1 pd2 w3 t2 pd3 w4 t3 t4 wi ti where
      "terrain_stage rt a ''.'' [] wi = (Inr (mesh, pd0), w1, t0)"
      "buildings_stage rt a ''.'' mesh pd0 w1 = (Inr pd1, w2, t1)"
      "trees_stage rt a ''.'' mesh pd1 w2 = (Inr pd2, w3, t2)"
      "roads_stage rt a ''.'' mesh pd2 w3 = (Inr pd3, w4, t3)"
      "write_stage rt a ''.'' pd3 w4 = (r, w', t4)"
      "tr = ti @ t0 @ t1 @ t2 @ t3 @ t4"
      "imports_stage rt w = (Inr (), wi, ti)"
  using assms unfolding import_by_stages bindM_iff [of _ _ w r w' tr]
  apply (elim disjE exE conjE)
   apply (erule importing [rotated])
   apply simp
  apply (clarsimp simp: bindM_iff)
  apply (elim disjE exE conjE)
      apply (rule terrain; simp)
     apply (rule buildings; simp)
    apply (rule trees; simp)
   apply (rule roads; simp)
  apply (rule writing; simp)
  done

lemma import_completes:
  assumes "import_from_openstreet_map rt a w = (Inr scene, w', tr)"
  obtains mesh pd0 w1 t0 pd1 w2 t1 pd2 w3 t2 pd3 w4 t3 t4 wi ti where
      "terrain_stage rt a ''.'' [] wi = (Inr (mesh, pd0), w1, t0)"
      "buildings_stage rt a ''.'' mesh pd0 w1 = (Inr pd1, w2, t1)"
      "trees_stage rt a ''.'' mesh pd1 w2 = (Inr pd2, w3, t2)"
      "roads_stage rt a ''.'' mesh pd2 w3 = (Inr pd3, w4, t3)"
      "write_stage rt a ''.'' pd3 w4 = (Inr scene, w', t4)"
      "tr = ti @ t0 @ t1 @ t2 @ t3 @ t4"
      "imports_stage rt w = (Inr (), wi, ti)"
  using assms by (cases rule: import_run_cases) auto

section \<open>The parts registry\<close>

lemma dict_keys_dict_set:
  "dict_keys (dict_set d k v) = (if k \<in> set (dict_keys d) then dict_keys d else dict_keys d @ [k])"
  by (induction d) (force simp: dict_keys_def)+

lemma map_of_dict_set: "map_of (dict_set d k v) = (map_of d)(k \<mapsto> v)"
  by (induction d) (auto simp: fun_eq_iff)

lemma import_parts:
  assumes "import_from_openstreet_map rt a w = (Inr scene, w', tr)"
  shows "\<exists>parts. scene = scene_of a parts \<and>
           dict_keys parts = [''terrain'']
             @ (if include_osm_buildings a then [''buildings''] else [])
             @ (if include_osm_trees a then [''trees''] else [])
             @ (if including_osm_roads a then [''roads''] else [])"
proof -
  from assms obtain mesh pd0 w1 t0 pd1 w2 t1 pd2 w3 t2 pd3 w4 t3 t4 wi ti where
    s0: "terrain_stage rt a ''.'' [] wi = (Inr (mesh, pd0), w1, t0)" and
    s1: "buildings_stage rt a ''.'' mesh pd0 w1 = (Inr pd1, w2, t1)" and
    s2: "trees_stage rt a ''.'' mesh pd1 w2 = (Inr pd2, w3, t2)" and
    s3: "roads_stage rt a ''.'' mesh pd2 w3 = (Inr pd3, w4, t3)" and
    s4: "write_stage rt a ''.'' pd3 w4 = (Inr scene, w', t4)"
    by (rule import_completes)
  have k0: "dict_keys pd0 = [''terrain'']"
    using terrain_stage_Inr [OF s0] by (auto simp: dict_keys_def)
  have k1: "dict_keys pd1 = dict_keys pd0 @ (if include_osm_buildings a then [''buildings''] else [])"
    using buildings_stage_Inr [OF s1] k0 by (auto simp: dict_keys_dict_set split: if_splits)
  have k2: "dict_keys pd2 = dict_keys pd1 @ (if include_osm_trees a then [''trees''] else [])"
    using trees_stage_Inr [OF s2] k0 k1 by (auto simp: dict_keys_dict_set split: if_splits)
  have k3: "dict_keys pd3 = dict_keys pd2 @ (if including_osm_roads a then [''roads''] else [])"
    using roads_stage_Inr [OF s3] k0 k1 k2 by (auto simp: dict_keys_dict_set split: if_splits)
  have "scene = scene_of a pd3"
    using write_stage_Inr [OF s4] by simp
  with k0 k1 k2 k3 show ?thesis
    by (intro exI [of _ pd3]) simp
qed

text \<open>The join with the output path of the body, the current directory.\<close>

lemma posixpath_join_cwd:
  "posixpath_join ''.'' b = (if prefix ''/'' b then b else ''./'' @ b)"
  by (simp add: posixpath_join_def suffix_Cons)

lemmas run_defs = import_by_stages imports_stage_def terrain_stage_def buildings_stage_def
  trees_stage_def roads_stage_def write_stage_def bindM_def returnM_def liftE_def
  from_import_def new_prep_def invoke_def logger_info_def getitem_def open_write_def
  json_dump_to_def posixpath_join_cwd scene_of_def Let_def

lemmas sample_defs = sample_rt_def sample_geo_def sample_part_def sample_args_def
  terrain_only_args_def bind_args_def no_kwargs_def sample_world_def written_world_def
  sample_imports_def sample_radius

text \<open>The runs of the sample environment.\<close>

lemma sample_imports_run:
  "imports_stage sample_rt sample_world = (Inr (), sample_world, sample_imports)"
  by (simp add: imports_stage_def from_import_def bindM_def sample_rt_def sample_imports_def)

lemma sample_run_terrain_only:
  "import_from_openstreet_map sample_rt terrain_only_args sample_world =
     (Inr terrain_only_scene, written_world, terrain_only_trace)"
  by (simp add: run_defs sample_defs terrain_only_scene_def terrain_only_trace_def)

lemma sample_run:
  "import_from_openstreet_map sample_rt sample_args sample_world =
     (Inr sample_scene, written_world, sample_trace)"
  by (simp add: run_defs sample_defs sample_scene_def sample_trace_def)

text \<open>
  C1. Whenever the import completes, the parts registry (the value of \<^verbatim>\<open>"parts"\<close> in the
  returned descriptor) has the key \<^verbatim>\<open>"terrain"\<close>, whatever the flags; it has the key
  \<^verbatim>\<open>"buildings"\<close>, \<^verbatim>\<open>"trees"\<close>, \<^verbatim>\<open>"roads"\<close> exactly when the flag of that category is true;
  no key occurs twice; and with the three flags false it has exactly one entry.
\<close>

theorem parts_registry_keys:
  assumes "import_from_openstreet_map rt a w = (Inr scene, w', tr)"
  shows "\<exists>parts. map_of scene ''parts'' = Some (PDict parts) \<and>
           ''terrain'' \<in> set (dict_keys parts) \<and>
           (''buildings'' \<in> set (dict_keys parts) \<longleftrightarrow> include_osm_buildings a) \<and>
           (''trees'' \<in> set (dict_keys parts) \<longleftrightarrow> include_osm_trees a) \<and>
           (''roads'' \<in> set (dict_keys parts) \<longleftrightarrow> including_osm_roads a) \<and>
           distinct (dict_keys parts) \<and>
           (\<not> include_osm_buildings a \<and> \<not> include_osm_trees a \<and> \<not> including_osm_roads a
              \<longrightarrow> length parts = 1)"
proof -
  from import_parts [OF assms] obtain parts where
    scene: "scene = scene_of a parts" and
    keys: "dict_keys parts = [''terrain'']
             @ (if include_osm_buildings a then [''buildings''] else [])
             @ (if include_osm_trees a then [''trees''] else [])
             @ (if including_osm_roads a then [''roads''] else [])"
    by blast
  have "map_of scene ''parts'' = Some (PDict parts)"
    by (simp add: scene scene_of_def)
  moreover have "length parts = length (dict_keys parts)"
    by (simp add: dict_keys_def)
  ultimately show ?thesis
    by (intro exI [of _ parts]) (simp add: keys)
qed

theorem parts_registry_keys_witness:
  "import_from_openstreet_map sample_rt terrain_only_args sample_world =
     (Inr terrain_only_scene, written_world, terrain_only_trace)
   \<and> \<not> include_osm_buildings terrain_only_args \<and> \<not> include_osm_trees terrain_only_args
   \<and> \<not> including_osm_roads terrain_only_args
   \<and> (\<exists>parts. map_of terrain_only_scene ''parts'' = Some (PDict parts)
         \<and> dict_keys parts = [''terrain''] \<and> length parts = 1)"
  using parts_registry_keys [OF sample_run_terrain_only] sample_run_terrain_only
  by (auto simp: terrain_only_scene_def terrain_only_args_def bind_args_def no_kwargs_def
      scene_of_def dict_keys_def)

section \<open>The descriptor and its file\<close>

lemma dumped_objects_append: "dumped_objects (s @ t) = dumped_objects s @ dumped_objects t"
  by (induction s rule: dumped_objects.induct) simp_all

lemma opened_paths_append: "opened_paths (s @ t) = opened_paths s @ opened_paths t"
  by (induction s rule: opened_paths.induct) simp_all

text \<open>
  A completed run ends with the opening of the file, the dump and the last message, and
  has no event on a file before.
\<close>

lemma import_written:
  assumes "import_from_openstreet_map rt a w = (Inr scene, w', tr)"
  shows "\<exists>parts w4 t.
           scene = scene_of a parts \<and>
           snd (json_dump rt (PDict scene) 4) = None \<and>
           w' = w4\<lparr>files := (files w4)(os_path_join rt ''.'' (env_name a @ ''.json'') \<mapsto>
                     fst (json_dump rt (PDict scene) 4))\<rparr> \<and>
           tr = t @ [Opened (os_path_join rt ''.'' (env_name a @ ''.json'')) ''w'' ''utf-8'' None,
                     Dumped (PDict scene) 4 (fst (json_dump rt (PDict scene) 4)) None,
                     Log_info ''Done...''] \<and>
           filter is_file_event t = [] \<and> dumped_objects t = [] \<and> opened_paths t = []"
proof -
  from assms obtain mesh pd0 w1 t0 pd1 w2 t1 pd2 w3 t2 pd3 w4 t3 t4 wi ti where
    s0: "terrain_stage rt a ''.'' [] wi = (Inr (mesh, pd0), w1, t0)" and
    s1: "buildings_stage rt a ''.'' mesh pd0 w1 = (Inr pd1, w2, t1)" and
    s2: "trees_stage rt a ''.'' mesh pd1 w2 = (Inr pd2, w3, t2)" and
    s3: "roads_stage rt a ''.'' mesh pd2 w3 = (Inr pd3, w4, t3)" and
    s4: "write_stage rt a ''.'' pd3 w4 = (Inr scene, w', t4)" and
    tr: "tr = ti @ t0 @ t1 @ t2 @ t3 @ t4" and
    si: "imports_stage rt w = (Inr (), wi, ti)"
    by (rule import_completes)
  have fi: "filter is_file_event ti = [] \<and> dumped_objects ti = [] \<and> opened_paths ti = []"
    using imports_stage_trace [OF si] by simp
  have f0: "filter is_file_event t0 = [] \<and> dumped_objects t0 = [] \<and> opened_paths t0 = []"
    using terrain_stage_Inr [OF s0] by auto
  have f1: "filter is_file_event t1 = [] \<and> dumped_objects t1 = [] \<and> opened_paths t1 = []"
    using buildings_stage_Inr [OF s1] by (auto split: if_splits)
  have f2: "filter is_file_event t2 = [] \<and> dumped_objects t2 = [] \<and> opened_paths t2 = []"
    using trees_stage_Inr [OF s2] by (auto split: if_splits)
  have f3: "filter is_file_event t3 = [] \<and> dumped_objects t3 = [] \<and> opened_paths t3 = []"
    using roads_stage_Inr [OF s3] by (auto split: if_splits)
  show ?thesis
    using write_stage_Inr [OF s4] fi f0 f1 f2 f3
    by (intro exI [of _ pd3] exI [of _ w4] exI [of _ "ti @ t0 @ t1 @ t2 @ t3"])
       (auto simp: tr dumped_objects_append opened_paths_append)
qed

lemma sample_args_simps:
  "latitude_longitude sample_args = sample_anchor"
  "env_name sample_args = ''default''"
  "terrain_radius sample_args = PInt 500"
  "include_osm_buildings sample_args"
  "including_osm_roads sample_args"
  "include_osm_trees sample_args"
  "z_offset sample_args = PNum (PInt 2)"
  "road_step sample_args = PNum (PInt 3)"
  "road_width sample_args = PNum (PInt 8)"
  "\<not> save_nodes sample_args"
  by (simp_all add: sample_args_def bind_args_def no_kwargs_def)

lemma sample_rt_simps:
  "json_dump sample_rt obj indent = (''{}'', None)"
  "os_path_join sample_rt = posixpath_join"
  by (simp_all add: sample_rt_def)

lemma sample_run_absolute_name:
  "import_from_openstreet_map sample_rt absolute_name_args sample_world =
     (Inr absolute_name_scene,
      sample_world\<lparr>files := (files sample_world)(''/tmp/x.json'' \<mapsto> ''{}'')\<rparr>,
      sample_imports @
      [Constructed TerrainPrep ''.'' (Inr 1),
       Called (Get_terrain 1 sample_anchor (PNum (PInt 500)) 30)
         (Inr (sample_geo ''terrain.stl'' 10)),
       Opened ''/tmp/x.json'' ''w'' ''utf-8'' None,
       Dumped (PDict absolute_name_scene) 4 ''{}'' None,
       Log_info ''Done...''])"
  by (simp add: run_defs sample_defs absolute_name_args_def absolute_name_scene_def)

text \<open>
  C3. Whenever the import completes, the fields \<^verbatim>\<open>center_lat_lon\<close>, \<^verbatim>\<open>radius\<close>,
  \<^verbatim>\<open>include_buildings\<close>, \<^verbatim>\<open>include_roads\<close> and \<^verbatim>\<open>include_trees\<close> of the returned
  descriptor are the arguments \<^verbatim>\<open>latitude_longitude\<close>, \<^verbatim>\<open>terrain_radius\<close> and the three flags
  as they were passed, and the one object dumped as JSON is that descriptor.
\<close>

theorem descriptor_echoes_inputs:
  assumes "import_from_openstreet_map rt a w = (Inr scene, w', tr)"
  shows "map_of scene ''center_lat_lon'' = Some (latitude_longitude a) \<and>
         map_of scene ''radius'' = Some (PNum (terrain_radius a)) \<and>
         map_of scene ''include_buildings'' = Some (PBool (include_osm_buildings a)) \<and>
         map_of scene ''include_roads'' = Some (PBool (including_osm_roads a)) \<and>
         map_of scene ''include_trees'' = Some (PBool (include_osm_trees a)) \<and>
         dumped_objects tr = [PDict scene]"
  using import_written [OF assms]
  by (auto simp: scene_of_def dumped_objects_append)

theorem descriptor_echoes_inputs_witness:
  "import_from_openstreet_map sample_rt sample_args sample_world =
     (Inr sample_scene, written_world, sample_trace) \<and>
   map_of sample_scene ''center_lat_lon'' = Some sample_anchor \<and>
   map_of sample_scene ''radius'' = Some (PNum (PInt 500)) \<and>
   map_of sample_scene ''include_buildings'' = Some (PBool True) \<and>
   map_of sample_scene ''include_roads'' = Some (PBool True) \<and>
   map_of sample_scene ''include_trees'' = Some (PBool True) \<and>
   dumped_objects sample_trace = [PDict sample_scene]"
  using descriptor_echoes_inputs [OF sample_run] sample_run
  by (simp add: sample_args_simps)

text \<open>
  C9. Whenever the import completes, it returns the descriptor: the name, the version 1,
  the type \<^verbatim>\<open>"environment"\<close>, the anchor, the radius, the three flags and the parts
  registry, in this order; the one object dumped as JSON is this dictionary, and the file
  holds the text of that dump.
\<close>

theorem returns_descriptor:
  assumes "import_from_openstreet_map rt a w = (Inr scene, w', tr)"
  shows "(\<exists>parts. scene =
            [(''name'', PStr (env_name a)),
             (''version'', PNum (PInt 1)),
             (''type'', PStr ''environment''),
             (''center_lat_lon'', latitude_longitude a),
             (''radius'', PNum (terrain_radius a)),
             (''include_buildings'', PBool (include_osm_buildings a)),
             (''include_roads'', PBool (including_osm_roads a)),
             (''include_trees'', PBool (include_osm_trees a)),
             (''parts'', PDict parts)]) \<and>
         dumped_objects tr = [PDict scene] \<and>
         files w' (os_path_join rt ''.'' (env_name a @ ''.json'')) =
           Some (fst (json_dump rt (PDict scene) 4))"
  using import_written [OF assms]
  by (auto simp: scene_of_def dumped_objects_append)

theorem returns_descriptor_witness:
  "import_from_openstreet_map sample_rt sample_args sample_world =
     (Inr sample_scene, written_world, sample_trace) \<and>
   (\<exists>parts. sample_scene =
      [(''name'', PStr ''default''),
       (''version'', PNum (PInt 1)),
       (''type'', PStr ''environment''),
       (''center_lat_lon'', sample_anchor),
       (''radius'', PNum (PInt 500)),
       (''include_buildings'', PBool True),
       (''include_roads'', PBool True),
       (''include_trees'', PBool True),
       (''parts'', PDict parts)]) \<and>
   dumped_objects sample_trace = [PDict sample_scene] \<and>
   files written_world ''./default.json'' = Some ''{}''"
  using returns_descriptor [OF sample_run] sample_run
  by (auto simp: sample_args_simps sample_rt_simps posixpath_join_cwd)

text \<open>
  C6, as amended. Whenever the import completes, exactly one JSON file has been written,
  at the path \<^verbatim>\<open>os.path.join(output_dir, env_name + ".json")\<close>, encoded UTF-8 with 4-space
  indentation, and a file that was at that path has been overwritten: the run opens that
  one path and no other, for writing and with the encoding UTF-8, and dumps the descriptor
  into it with an indent of 4; afterwards the file holds the text of that dump, whatever
  it held before. The output directory is the current one.
\<close>

theorem descriptor_file_written:
  assumes "import_from_openstreet_map rt a w = (Inr scene, w', tr)"
  shows "filter is_file_event tr =
           [Opened (os_path_join rt ''.'' (env_name a @ ''.json'')) ''w'' ''utf-8'' None,
            Dumped (PDict scene) 4 (fst (json_dump rt (PDict scene) 4)) None] \<and>
         opened_paths tr = [os_path_join rt ''.'' (env_name a @ ''.json'')] \<and>
         files w' (os_path_join rt ''.'' (env_name a @ ''.json'')) =
           Some (fst (json_dump rt (PDict scene) 4))"
  using import_written [OF assms]
  by (auto simp: opened_paths_append)

theorem descriptor_file_written_witness:
  "import_from_openstreet_map sample_rt sample_args sample_world =
     (Inr sample_scene, written_world, sample_trace) \<and>
   filter is_file_event sample_trace =
     [Opened ''./default.json'' ''w'' ''utf-8'' None, Dumped (PDict sample_scene) 4 ''{}'' None] \<and>
   opened_paths sample_trace = [''./default.json''] \<and>
   files sample_world ''./default.json'' = Some ''old'' \<and>
   files written_world ''./default.json'' = Some ''{}''"
  using descriptor_file_written [OF sample_run] sample_run
  by (auto simp: sample_args_simps sample_rt_simps posixpath_join_cwd sample_world_def)

text \<open>
  On POSIX, with the environment name \<^verbatim>\<open>/tmp/x\<close>, the import completes, the one file it
  opens is \<^verbatim>\<open>/tmp/x.json\<close>, and there is no file at \<^verbatim>\<open><output_dir>/<env_name>.json\<close>
  afterwards.
\<close>

theorem descriptor_file_path_counterexample:
  "fst (import_from_openstreet_map sample_rt absolute_name_args sample_world)
     = Inr absolute_name_scene \<and>
   opened_paths (snd (snd (import_from_openstreet_map sample_rt absolute_name_args sample_world)))
     = [''/tmp/x.json''] \<and>
   spec_json_path ''.'' (env_name absolute_name_args) = ''.//tmp/x.json'' \<and>
   files (fst (snd (import_from_openstreet_map sample_rt absolute_name_args sample_world)))
     (spec_json_path ''.'' (env_name absolute_name_args)) = None"
  unfolding sample_run_absolute_name
  by (simp add: spec_json_path_def absolute_name_args_def sample_world_def sample_imports_def)

section \<open>The provider calls\<close>

lemma terrain_stage_first:
  assumes "terrain_stage rt a op pd w = (r, w', t)"
  shows "\<exists>out rest. t = Constructed TerrainPrep op out # rest \<and>
           (\<forall>tp. out = Inr tp \<longrightarrow>
              (\<exists>res. rest = [Called (Get_terrain tp (latitude_longitude a)
                                       (PNum (terrain_radius a)) 30) res]))"
  using assms unfolding terrain_stage_def Let_def
  by (cases r) (auto simp: step_iffs)

lemma terrain_stage_calls:
  assumes "terrain_stage rt a op pd w = (Inl e, w', t)"
  shows "method_calls t = [] \<or>
         (\<exists>tp. method_calls t =
                  [Get_terrain tp (latitude_longitude a) (PNum (terrain_radius a)) 30])"
  using terrain_stage_Inl [OF assms] by auto

lemma buildings_stage_calls:
  assumes "buildings_stage rt a op mesh pd w = (r, w', t)"
  shows "\<forall>c\<in>set (method_calls t). optional_call a mesh c"
proof (cases r)
  case (Inl e)
  with buildings_stage_Inl [of rt a op mesh pd w e w' t] assms show ?thesis by auto
next
  case (Inr pd')
  with buildings_stage_Inr [of rt a op mesh pd w pd' w' t] assms show ?thesis
    by (auto split: if_splits)
qed

lemma trees_stage_calls:
  assumes "trees_stage rt a op mesh pd w = (r, w', t)"
  shows "\<forall>c\<in>set (method_calls t). optional_call a mesh c"
proof (cases r)
  case (Inl e)
  with trees_stage_Inl [of rt a op mesh pd w e w' t] assms show ?thesis by auto
next
  case (Inr pd')
  with trees_stage_Inr [of rt a op mesh pd w pd' w' t] assms show ?thesis
    by (auto split: if_splits)
qed

lemma roads_stage_calls:
  assumes "roads_stage rt a op mesh pd w = (r, w', t)"
  shows "\<forall>c\<in>set (method_calls t). optional_call a mesh c"
proof (cases r)
  case (Inl e)
  with roads_stage_Inl [of rt a op mesh pd w e w' t] assms show ?thesis by auto
next
  case (Inr pd')
  with roads_stage_Inr [of rt a op mesh pd w pd' w' t] assms show ?thesis
    by (auto split: if_splits)
qed

lemma after_terrain:
  assumes s0: "terrain_stage rt a op pd w = (Inr (mesh, pd0), w1, t0)"
      and rest: "\<forall>c\<in>set (method_calls t). optional_call a mesh c"
      and c: "c \<in> set (method_calls (t0 @ t))"
  shows "(\<exists>tp. c = Get_terrain tp (latitude_longitude a) (PNum (terrain_radius a)) 30) \<or>
         (\<exists>tp tgeo mesh.
            Called (Get_terrain tp (latitude_longitude a) (PNum (terrain_radius a)) 30)
              (Inr tgeo) \<in> set (t0 @ t) \<and>
            getitem tgeo ''mesh'' = Inr mesh \<and> optional_call a mesh c)"
proof -
  from terrain_stage_Inr [OF s0] obtain tp tgeo where
    mesh: "getitem tgeo ''mesh'' = Inr mesh" and
    t0: "t0 = [Constructed TerrainPrep op (Inr tp),
               Called (Get_terrain tp (latitude_longitude a) (PNum (terrain_radius a)) 30)
                 (Inr tgeo)]"
    by blast
  from c have "c = Get_terrain tp (latitude_longitude a) (PNum (terrain_radius a)) 30
      \<or> c \<in> set (method_calls t)"
    by (auto simp: t0 method_calls_append)
  then show ?thesis
  proof
    assume "c = Get_terrain tp (latitude_longitude a) (PNum (terrain_radius a)) 30"
    then show ?thesis by blast
  next
    assume "c \<in> set (method_calls t)"
    with rest have "optional_call a mesh c" by blast
    moreover have "Called (Get_terrain tp (latitude_longitude a) (PNum (terrain_radius a)) 30)
        (Inr tgeo) \<in> set (t0 @ t)"
      by (simp add: t0)
    ultimately show ?thesis using mesh by blast
  qed
qed

lemma after_imports:
  assumes si: "imports_stage rt w = (Inr (), wi, ti)"
      and s0: "terrain_stage rt a op pd wi = (Inr (mesh, pd0), w1, t0)"
      and rest: "\<forall>c\<in>set (method_calls t). optional_call a mesh c"
      and c: "c \<in> set (method_calls (ti @ t0 @ t))"
  shows "(\<exists>tp. c = Get_terrain tp (latitude_longitude a) (PNum (terrain_radius a)) 30) \<or>
         (\<exists>tp tgeo mesh.
            Called (Get_terrain tp (latitude_longitude a) (PNum (terrain_radius a)) 30)
              (Inr tgeo) \<in> set (ti @ t0 @ t) \<and>
            getitem tgeo ''mesh'' = Inr mesh \<and> optional_call a mesh c)"
proof -
  from c imports_stage_trace [OF si] have "c \<in> set (method_calls (t0 @ t))"
    by (simp add: method_calls_append)
  from after_terrain [OF s0 rest this] show ?thesis by auto
qed

text \<open>
  Every method call of a run, completed or not, is the terrain call or one of the optional
  calls, on the mesh that the terrain call returned.
\<close>

lemma import_calls:
  assumes "import_from_openstreet_map rt a w = (r, w', tr)"
      and "c \<in> set (method_calls tr)"
  shows "(\<exists>tp. c = Get_terrain tp (latitude_longitude a) (PNum (terrain_radius a)) 30) \<or>
         (\<exists>tp tgeo mesh.
            Called (Get_terrain tp (latitude_longitude a) (PNum (terrain_radius a)) 30)
              (Inr tgeo) \<in> set tr \<and>
            getitem tgeo ''mesh'' = Inr mesh \<and> optional_call a mesh c)"
  using assms(1)
proof (cases rule: import_run_cases)
  case (importing e)
  with imports_stage_trace [OF importing(2)] assms(2) show ?thesis by simp
next
  case (terrain e wi ti t0)
  with terrain_stage_calls [OF terrain(2)] imports_stage_trace [OF terrain(4)] assms(2)
  show ?thesis by (auto simp: method_calls_append)
next
  case (buildings e mesh pd0 w1 t0 t1 wi ti)
  have "\<forall>c\<in>set (method_calls t1). optional_call a mesh c"
    using buildings_stage_calls [OF buildings(3)] .
  from after_imports [OF buildings(5) buildings(2) this] assms(2) show ?thesis
    unfolding buildings(4) by blast
next
  case (trees e mesh pd0 w1 t0 pd1 w2 t1 t2 wi ti)
  have "\<forall>c\<in>set (method_calls (t1 @ t2)). optional_call a mesh c"
    using buildings_stage_calls [OF trees(3)] trees_stage_calls [OF trees(4)]
    by (auto simp: method_calls_append)
  from after_imports [OF trees(6) trees(2) this] assms(2) show ?thesis
    unfolding trees(5) by blast
next
  case (roads e mesh pd0 w1 t0 pd1 w2 t1 pd2 w3 t2 t3 wi ti)
  have "\<forall>c\<in>set (method_calls (t1 @ t2 @ t3)). optional_call a mesh c"
    using buildings_stage_calls [OF roads(3)] trees_stage_calls [OF roads(4)]
      roads_stage_calls [OF roads(5)]
    by (auto simp: method_calls_append)
  from after_imports [OF roads(7) roads(2) this] assms(2) show ?thesis
    unfolding roads(6) by blast
next
  case (writing mesh pd0 w1 t0 pd1 w2 t1 pd2 w3 t2 pd3 w4 t3 t4 wi ti)
  have "\<forall>c\<in>set (method_calls (t1 @ t2 @ t3 @ t4)). optional_call a mesh c"
    using buildings_stage_calls [OF writing(2)] trees_stage_calls [OF writing(3)]
      roads_stage_calls [OF writing(4)] write_stage_calls [OF writing(5)]
    by (auto simp: method_calls_append)
  from after_imports [OF writing(7) writing(1) this] assms(2) show ?thesis
    unfolding writing(6) by blast
qed

text \<open>
  A run whose imports raise stops there. A run whose imports pass goes on with the
  creation of the terrain provider, and with the terrain call if that succeeds.
\<close>

lemma import_failure_propagates:
  assumes "imports_stage rt w = (Inl e, wi, ti)"
  shows "import_from_openstreet_map rt a w = (Inl e, wi, ti)"
  using assms by (simp add: import_by_stages bindM_def)

lemma import_first:
  assumes run: "import_from_openstreet_map rt a w = (r, w', tr)"
      and si: "imports_stage rt w = (Inr (), wi, ti)"
  shows "\<exists>out rest. tr = ti @ Constructed TerrainPrep ''.'' out # rest \<and>
           (\<forall>tp. out = Inr tp \<longrightarrow>
              (\<exists>res rest'. rest = Called (Get_terrain tp (latitude_longitude a)
                                             (PNum (terrain_radius a)) 30) res # rest'))"
proof -
  obtain r0 w0 t0 where s0: "terrain_stage rt a ''.'' [] wi = (r0, w0, t0)"
    by (metis prod_cases3)
  have "\<exists>t1. tr = ti @ t0 @ t1"
    using run s0 si unfolding import_by_stages
    by (cases r0) (auto simp: bindM_def split: prod.splits)
  then obtain t1 where tr: "tr = ti @ t0 @ t1" by blast
  from terrain_stage_first [OF s0] show ?thesis
    unfolding tr by fastforce
qed

lemma buildings_stage_providers:
  assumes "buildings_stage rt a op mesh pd w = (r, w', t)"
  shows "case r of
           Inl e \<Rightarrow> include_osm_buildings a \<and> (map provider_of (method_calls t) = [] \<or>
                       map provider_of (method_calls t) = [Buildings])
         | Inr pd' \<Rightarrow> map provider_of (method_calls t)
                       = (if include_osm_buildings a then [Buildings] else [])"
proof (cases r)
  case (Inl e)
  with buildings_stage_Inl [of rt a op mesh pd w e w' t] assms show ?thesis by auto
next
  case (Inr pd')
  with buildings_stage_Inr [of rt a op mesh pd w pd' w' t] assms show ?thesis
    by (auto split: if_splits)
qed

lemma trees_stage_providers:
  assumes "trees_stage rt a op mesh pd w = (r, w', t)"
  shows "case r of
           Inl e \<Rightarrow> include_osm_trees a \<and> (map provider_of (method_calls t) = [] \<or>
                       map provider_of (method_calls t) = [Trees])
         | Inr pd' \<Rightarrow> map provider_of (method_calls t)
                       = (if include_osm_trees a then [Trees] else [])"
proof (cases r)
  case (Inl e)
  with trees_stage_Inl [of rt a op mesh pd w e w' t] assms show ?thesis by auto
next
  case (Inr pd')
  with trees_stage_Inr [of rt a op mesh pd w pd' w' t] assms show ?thesis
    by (auto split: if_splits)
qed

lemma roads_stage_providers:
  assumes "roads_stage rt a op mesh pd w = (r, w', t)"
  shows "case r of
           Inl e \<Rightarrow> including_osm_roads a \<and> (map provider_of (method_calls t) = [] \<or>
                       map provider_of (method_calls t) = [Roads])
         | Inr pd' \<Rightarrow> map provider_of (method_calls t)
                       = (if including_osm_roads a then [Roads] else [])"
proof (cases r)
  case (Inl e)
  with roads_stage_Inl [of rt a op mesh pd w e w' t] assms show ?thesis by auto
next
  case (Inr pd')
  with roads_stage_Inr [of rt a op mesh pd w pd' w' t] assms show ?thesis
    by (auto split: if_splits)
qed

lemma terrain_stage_providers:
  assumes "terrain_stage rt a op pd w = (Inr x, w', t)"
  shows "map provider_of (method_calls t) = [Terrain]"
  using terrain_stage_Inr [of rt a op pd w "fst x" "snd x" w' t] assms by auto

text \<open>
  The providers called in a run are an initial part of the expected ones, and all of them
  when the run completes.
\<close>

lemma import_call_order:
  assumes "import_from_openstreet_map rt a w = (r, w', tr)"
  shows "prefix (map provider_of (method_calls tr)) (expected_calls a) \<and>
         (\<forall>scene. r = Inr scene \<longrightarrow> map provider_of (method_calls tr) = expected_calls a)"
  using assms
proof (cases rule: import_run_cases)
  case (importing e)
  with imports_stage_trace [OF importing(2)] show ?thesis by simp
next
  case (terrain e wi ti t0)
  with terrain_stage_calls [OF terrain(2)] imports_stage_trace [OF terrain(4)] show ?thesis
    by (auto simp: expected_calls_def method_calls_append)
next
  case (buildings e mesh pd0 w1 t0 t1 wi ti)
  from terrain_stage_providers [OF buildings(2)] buildings_stage_providers [OF buildings(3)]
    imports_stage_trace [OF buildings(5)]
  show ?thesis
    unfolding buildings(1,4) expected_calls_def method_calls_append
    by auto
next
  case (trees e mesh pd0 w1 t0 pd1 w2 t1 t2 wi ti)
  from terrain_stage_providers [OF trees(2)] buildings_stage_providers [OF trees(3)]
    trees_stage_providers [OF trees(4)] imports_stage_trace [OF trees(6)]
  show ?thesis
    unfolding trees(1,5) expected_calls_def method_calls_append
    by auto
next
  case (roads e mesh pd0 w1 t0 pd1 w2 t1 pd2 w3 t2 t3 wi ti)
  from terrain_stage_providers [OF roads(2)] buildings_stage_providers [OF roads(3)]
    trees_stage_providers [OF roads(4)] roads_stage_providers [OF roads(5)]
    imports_stage_trace [OF roads(7)]
  show ?thesis
    unfolding roads(1,6) expected_calls_def method_calls_append
    by auto
next
  case (writing mesh pd0 w1 t0 pd1 w2 t1 pd2 w3 t2 pd3 w4 t3 t4 wi ti)
  from terrain_stage_providers [OF writing(1)] buildings_stage_providers [OF writing(2)]
    trees_stage_providers [OF writing(3)] roads_stage_providers [OF writing(4)]
    write_stage_calls [OF writing(5)] imports_stage_trace [OF writing(7)]
  show ?thesis
    unfolding writing(6) expected_calls_def method_calls_append
    by auto
qed

text \<open>
  What the product \<^verbatim>\<open>x * 0.8\<close> is when it does not raise: the float product of \<open>x\<close> as a
  float and of the literal, which for a finite \<open>x\<close> in the normal range is eight tenths of
  \<open>x\<close> up to the two roundings, of the literal and of the product.
\<close>

lemma times_float_0_8:
  assumes "times_float x float_0_8 = Inr v"
  shows "\<exists>y. as_float x = Inr y \<and> v = PNum (PFloat (float_mul y float_0_8)) \<and>
           (\<forall>q. y = Finite q \<and> 1 / 2 ^ 1021 \<le> \<bar>q\<bar> \<and> \<bar>q\<bar> < 2 ^ 1024 \<longrightarrow>
              (\<exists>p. float_mul y float_0_8 = Finite p \<and>
                    \<bar>p - 4 / 5 * q\<bar> \<le> \<bar>q\<bar> / 2 ^ 52))"
proof -
  from assms obtain y where y: "as_float x = Inr y"
    and v: "v = PNum (PFloat (float_mul y float_0_8))"
    by (auto simp: times_float_def split: sum.splits)
  have "\<exists>p. float_mul y float_0_8 = Finite p \<and> \<bar>p - 4 / 5 * q\<bar> \<le> \<bar>q\<bar> / 2 ^ 52"
    if "y = Finite q" "1 / 2 ^ 1021 \<le> \<bar>q\<bar>" "\<bar>q\<bar> < 2 ^ 1024" for q
    using float_mul_0_8_bound [OF that(2,3)] that(1) by simp
  with y v show ?thesis by blast
qed

text \<open>
  C2. In every run, completed or not, the \<^verbatim>\<open>max_radius\<close> of a call to the buildings
  provider and of a call to the trees provider is the product \<^verbatim>\<open>terrain_radius * 0.8\<close>: the
  float product of \<^verbatim>\<open>terrain_radius\<close>, as a float, and of the literal \<^verbatim>\<open>0.8\<close>, which for a
  finite radius in the normal range is eight tenths of it up to rounding (a relative error
  of at most \<open>1 / 2 ^ 52\<close>). The \<^verbatim>\<open>max_radius\<close> of a call to the roads provider (and to the
  terrain provider) is \<^verbatim>\<open>terrain_radius\<close> itself.
\<close>

theorem max_radius_arguments:
  assumes "import_from_openstreet_map rt a w = (r, w', tr)"
      and "c \<in> set (method_calls tr)"
  shows "case provider_of c of
           Terrain \<Rightarrow> max_radius_arg c = PNum (terrain_radius a)
         | Roads \<Rightarrow> max_radius_arg c = PNum (terrain_radius a)
         | Buildings \<Rightarrow>
             (\<exists>y. as_float (terrain_radius a) = Inr y \<and>
                max_radius_arg c = PNum (PFloat (float_mul y float_0_8)) \<and>
                (\<forall>q. y = Finite q \<and> 1 / 2 ^ 1021 \<le> \<bar>q\<bar> \<and> \<bar>q\<bar> < 2 ^ 1024 \<longrightarrow>
                   (\<exists>p. float_mul y float_0_8 = Finite p \<and>
                         \<bar>p - 4 / 5 * q\<bar> \<le> \<bar>q\<bar> / 2 ^ 52)))
         | Trees \<Rightarrow>
             (\<exists>y. as_float (terrain_radius a) = Inr y \<and>
                max_radius_arg c = PNum (PFloat (float_mul y float_0_8)) \<and>
                (\<forall>q. y = Finite q \<and> 1 / 2 ^ 1021 \<le> \<bar>q\<bar> \<and> \<bar>q\<bar> < 2 ^ 1024 \<longrightarrow>
                   (\<exists>p. float_mul y float_0_8 = Finite p \<and>
                         \<bar>p - 4 / 5 * q\<bar> \<le> \<bar>q\<bar> / 2 ^ 52)))"
proof (cases c)
  case (Get_terrain tp ll rad g)
  with import_calls [OF assms] show ?thesis by auto
next
  case (Generate_buildings bp ll m rad)
  with import_calls [OF assms] have "times_float (terrain_radius a) float_0_8 = Inr rad"
    by auto
  from times_float_0_8 [OF this] show ?thesis
    by (simp add: Generate_buildings)
next
  case (Generate_trees tp ll m rad)
  with import_calls [OF assms] have "times_float (terrain_radius a) float_0_8 = Inr rad"
    by auto
  from times_float_0_8 [OF this] show ?thesis
    by (simp add: Generate_trees)
next
  case (Create_roads rp ll m rad z st wd sn)
  with import_calls [OF assms] show ?thesis by auto
qed

theorem max_radius_arguments_witness:
  "import_from_openstreet_map sample_rt sample_args sample_world =
     (Inr sample_scene, written_world, sample_trace) \<and>
   Generate_buildings 2 sample_anchor (PObj 10) (PNum (PFloat (Finite 400)))
     \<in> set (method_calls sample_trace) \<and>
   terrain_radius sample_args = PInt 500 \<and>
   as_float (PInt 500) = Inr (Finite 500) \<and>
   float_mul (Finite 500) float_0_8 = Finite 400 \<and>
   (1::rat) / 2 ^ 1021 \<le> \<bar>500\<bar> \<and> \<bar>500::rat\<bar> < 2 ^ 1024 \<and>
   \<bar>400 - 4 / 5 * 500 :: rat\<bar> \<le> \<bar>500\<bar> / 2 ^ 52"
proof -
  have c: "Generate_buildings 2 sample_anchor (PObj 10) (PNum (PFloat (Finite 400)))
      \<in> set (method_calls sample_trace)"
    by (simp add: sample_trace_def sample_imports_def)
  from max_radius_arguments [OF sample_run c] c sample_run show ?thesis
    by (simp add: sample_args_simps sample_as_float sample_product)
qed

text \<open>
  C5. In every run, completed or not, the providers are called in the order terrain,
  buildings, trees, roads, an optional one only if its flag is true: the calls made are an
  initial part of that list, and the whole list when the run completes. Under all flags,
  the first thing a run does once its imports have passed is to create the terrain
  provider, and to call it if that succeeds. Every call to another provider is given the
  mesh that the terrain call returned.
\<close>

theorem provider_call_order:
  assumes "import_from_openstreet_map rt a w = (r, w', tr)"
  shows "prefix (map provider_of (method_calls tr)) (expected_calls a) \<and>
         (\<forall>scene. r = Inr scene \<longrightarrow> map provider_of (method_calls tr) = expected_calls a) \<and>
         (\<forall>wi ti. imports_stage rt w = (Inr (), wi, ti) \<longrightarrow>
            (\<exists>out rest. tr = ti @ Constructed TerrainPrep ''.'' out # rest \<and>
               (\<forall>tp. out = Inr tp \<longrightarrow>
                  (\<exists>res rest'. rest = Called (Get_terrain tp (latitude_longitude a)
                                                 (PNum (terrain_radius a)) 30) res # rest')))) \<and>
         (\<forall>c\<in>set (method_calls tr). \<forall>m. mesh_arg c = Some m \<longrightarrow>
            (\<exists>tp tgeo.
               Called (Get_terrain tp (latitude_longitude a) (PNum (terrain_radius a)) 30)
                 (Inr tgeo) \<in> set tr \<and>
               getitem tgeo ''mesh'' = Inr m))"
proof -
  have "\<exists>tp tgeo.
          Called (Get_terrain tp (latitude_longitude a) (PNum (terrain_radius a)) 30)
            (Inr tgeo) \<in> set tr \<and>
          getitem tgeo ''mesh'' = Inr m"
    if c: "c \<in> set (method_calls tr)" and m: "mesh_arg c = Some m" for c m
  proof -
    from import_calls [OF assms c] m obtain tp tgeo mesh where
      call: "Called (Get_terrain tp (latitude_longitude a) (PNum (terrain_radius a)) 30)
               (Inr tgeo) \<in> set tr" and
      mesh: "getitem tgeo ''mesh'' = Inr mesh" and
      opt: "optional_call a mesh c"
      by auto
    from opt m have "m = mesh" by (cases c) auto
    with call mesh show ?thesis by blast
  qed
  with import_call_order [OF assms] import_first [OF assms] show ?thesis
    by blast
qed

theorem provider_call_order_witness:
  "import_from_openstreet_map sample_rt sample_args sample_world =
     (Inr sample_scene, written_world, sample_trace) \<and>
   imports_stage sample_rt sample_world = (Inr (), sample_world, sample_imports) \<and>
   map provider_of (method_calls sample_trace) = [Terrain, Buildings, Trees, Roads] \<and>
   expected_calls sample_args = [Terrain, Buildings, Trees, Roads] \<and>
   take 6 sample_trace =
     sample_imports @
     [Constructed TerrainPrep ''.'' (Inr 1),
      Called (Get_terrain 1 sample_anchor (PNum (PInt 500)) 30)
        (Inr (sample_geo ''terrain.stl'' 10))] \<and>
   mesh_arg (Generate_trees 3 sample_anchor (PObj 10) (PNum (PFloat (Finite 400)))) = Some (PObj 10) \<and>
   Called (Get_terrain 1 sample_anchor (PNum (PInt 500)) 30)
     (Inr (sample_geo ''terrain.stl'' 10)) \<in> set sample_trace \<and>
   getitem (sample_geo ''terrain.stl'' 10) ''mesh'' = Inr (PObj 10)"
  using provider_call_order [OF sample_run] sample_run sample_imports_run
  by (simp add: sample_trace_def sample_imports_def sample_args_simps expected_calls_def
      sample_geo_def getitem_def)

text \<open>The roads call of a completed run and its entry in the registry.\<close>

lemma roads_call_completed:
  assumes "import_from_openstreet_map rt a w = (Inr scene, w', tr)"
      and "including_osm_roads a"
  shows "\<exists>rp tp tgeo mesh geo stl parts.
           filter (\<lambda>c. provider_of c = Roads) (method_calls tr) =
             [Create_roads rp (latitude_longitude a) mesh (PNum (terrain_radius a))
                (z_offset a) (road_step a) (road_width a) (PBool (save_nodes a))] \<and>
           Called (Get_terrain tp (latitude_longitude a) (PNum (terrain_radius a)) 30)
             (Inr tgeo) \<in> set tr \<and>
           getitem tgeo ''mesh'' = Inr mesh \<and>
           Called (Create_roads rp (latitude_longitude a) mesh (PNum (terrain_radius a))
                     (z_offset a) (road_step a) (road_width a) (PBool (save_nodes a)))
             (Inr geo) \<in> set tr \<and>
           getitem geo ''file_name'' = Inr stl \<and>
           map_of scene ''parts'' = Some (PDict parts) \<and>
           map_of parts ''roads'' =
             Some (PDict [(''file_name'', stl), (''color'', PStr ''black''),
                          (''material'', PStr ''asphalt'')])"
proof -
  from assms(1) obtain mesh pd0 w1 t0 pd1 w2 t1 pd2 w3 t2 pd3 w4 t3 t4 wi ti where
    s0: "terrain_stage rt a ''.'' [] wi = (Inr (mesh, pd0), w1, t0)" and
    s1: "buildings_stage rt a ''.'' mesh pd0 w1 = (Inr pd1, w2, t1)" and
    s2: "trees_stage rt a ''.'' mesh pd1 w2 = (Inr pd2, w3, t2)" and
    s3: "roads_stage rt a ''.'' mesh pd2 w3 = (Inr pd3, w4, t3)" and
    s4: "write_stage rt a ''.'' pd3 w4 = (Inr scene, w', t4)" and
    tr: "tr = ti @ t0 @ t1 @ t2 @ t3 @ t4" and
    si: "imports_stage rt w = (Inr (), wi, ti)"
    by (rule import_completes)
  have pi: "method_calls ti = []"
    using imports_stage_trace [OF si] by simp
  from terrain_stage_Inr [OF s0] obtain tp tgeo where
    mesh: "getitem tgeo ''mesh'' = Inr mesh" and
    t0: "t0 = [Constructed TerrainPrep ''.'' (Inr tp),
               Called (Get_terrain tp (latitude_longitude a) (PNum (terrain_radius a)) 30)
                 (Inr tgeo)]"
    by blast
  from roads_stage_Inr [OF s3] assms(2) obtain rp geo stl where
    stl: "getitem geo ''file_name'' = Inr stl" and
    pd3: "pd3 = dict_set pd2 ''roads'' (PDict [(''file_name'', stl),
                  (''color'', PStr ''black''), (''material'', PStr ''asphalt'')])" and
    t3: "t3 = [Log_info ''Generating Road Geometry'',
               Constructed RoadPrep ''.'' (Inr rp),
               Called (Create_roads rp (latitude_longitude a) mesh (PNum (terrain_radius a))
                         (z_offset a) (road_step a) (road_width a) (PBool (save_nodes a)))
                 (Inr geo)]"
    by auto
  have p1: "filter (\<lambda>c. provider_of c = Roads) (method_calls t1) = []"
    using buildings_stage_Inr [OF s1] by (auto split: if_splits)
  have p2: "filter (\<lambda>c. provider_of c = Roads) (method_calls t2) = []"
    using trees_stage_Inr [OF s2] by (auto split: if_splits)
  have p4: "method_calls t4 = []"
    using write_stage_calls [OF s4] .
  have calls: "filter (\<lambda>c. provider_of c = Roads) (method_calls tr) =
      [Create_roads rp (latitude_longitude a) mesh (PNum (terrain_radius a))
         (z_offset a) (road_step a) (road_width a) (PBool (save_nodes a))]"
    by (simp add: tr method_calls_append pi p1 p2 p4 t0 t3)
  have scene: "map_of scene ''parts'' = Some (PDict pd3)"
    using write_stage_Inr [OF s4] by (simp add: scene_of_def)
  have roads: "map_of pd3 ''roads'' =
      Some (PDict [(''file_name'', stl), (''color'', PStr ''black''),
                   (''material'', PStr ''asphalt'')])"
    by (simp add: pd3 map_of_dict_set)
  have in0: "Called (Get_terrain tp (latitude_longitude a) (PNum (terrain_radius a)) 30)
      (Inr tgeo) \<in> set tr"
    by (simp add: tr t0)
  have in3: "Called (Create_roads rp (latitude_longitude a) mesh (PNum (terrain_radius a))
      (z_offset a) (road_step a) (road_width a) (PBool (save_nodes a))) (Inr geo) \<in> set tr"
    by (simp add: tr t3)
  from calls in0 mesh in3 stl scene roads show ?thesis by blast
qed

text \<open>
  C8. With the roads flag true, every call to the roads provider, in a run completed or
  not, is given the terrain mesh and \<^verbatim>\<open>terrain_radius\<close>, \<^verbatim>\<open>z_offset\<close>, \<^verbatim>\<open>road_step\<close>,
  \<^verbatim>\<open>road_width\<close> and \<^verbatim>\<open>save_nodes\<close> as they were passed. When the run completes there is
  exactly one such call, and the file name it returned is recorded in the registry under
  \<^verbatim>\<open>"roads"\<close>, with the colour black and the material asphalt.
\<close>

theorem roads_call_arguments:
  assumes "import_from_openstreet_map rt a w = (r, w', tr)"
      and "including_osm_roads a"
  shows "(\<forall>c\<in>set (method_calls tr). provider_of c = Roads \<longrightarrow>
            (\<exists>rp tp tgeo mesh.
               c = Create_roads rp (latitude_longitude a) mesh (PNum (terrain_radius a))
                     (z_offset a) (road_step a) (road_width a) (PBool (save_nodes a)) \<and>
               Called (Get_terrain tp (latitude_longitude a) (PNum (terrain_radius a)) 30)
                 (Inr tgeo) \<in> set tr \<and>
               getitem tgeo ''mesh'' = Inr mesh)) \<and>
         (\<forall>scene. r = Inr scene \<longrightarrow>
            (\<exists>rp mesh geo stl parts.
               filter (\<lambda>c. provider_of c = Roads) (method_calls tr) =
                 [Create_roads rp (latitude_longitude a) mesh (PNum (terrain_radius a))
                    (z_offset a) (road_step a) (road_width a) (PBool (save_nodes a))] \<and>
               Called (Create_roads rp (latitude_longitude a) mesh (PNum (terrain_radius a))
                         (z_offset a) (road_step a) (road_width a) (PBool (save_nodes a)))
                 (Inr geo) \<in> set tr \<and>
               getitem geo ''file_name'' = Inr stl \<and>
               map_of scene ''parts'' = Some (PDict parts) \<and>
               map_of parts ''roads'' =
                 Some (PDict [(''file_name'', stl), (''color'', PStr ''black''),
                              (''material'', PStr ''asphalt'')])))"
proof (intro conjI ballI allI impI)
  fix c
  assume c: "c \<in> set (method_calls tr)" and roads: "provider_of c = Roads"
  from import_calls [OF assms(1) c] roads obtain tp tgeo mesh where
    call: "Called (Get_terrain tp (latitude_longitude a) (PNum (terrain_radius a)) 30)
             (Inr tgeo) \<in> set tr" and
    mesh: "getitem tgeo ''mesh'' = Inr mesh" and
    opt: "optional_call a mesh c"
    by auto
  from opt roads obtain rp where
    "c = Create_roads rp (latitude_longitude a) mesh (PNum (terrain_radius a))
           (z_offset a) (road_step a) (road_width a) (PBool (save_nodes a))"
    by (cases c) auto
  with call mesh show "\<exists>rp tp tgeo mesh.
      c = Create_roads rp (latitude_longitude a) mesh (PNum (terrain_radius a))
            (z_offset a) (road_step a) (road_width a) (PBool (save_nodes a)) \<and>
      Called (Get_terrain tp (latitude_longitude a) (PNum (terrain_radius a)) 30)
        (Inr tgeo) \<in> set tr \<and>
      getitem tgeo ''mesh'' = Inr mesh"
    by blast
next
  fix scene
  assume "r = Inr scene"
  with assms(1) have "import_from_openstreet_map rt a w = (Inr scene, w', tr)" by simp
  from roads_call_completed [OF this assms(2)]
  show "\<exists>rp mesh geo stl parts.
      filter (\<lambda>c. provider_of c = Roads) (method_calls tr) =
        [Create_roads rp (latitude_longitude a) mesh (PNum (terrain_radius a))
           (z_offset a) (road_step a) (road_width a) (PBool (save_nodes a))] \<and>
      Called (Create_roads rp (latitude_longitude a) mesh (PNum (terrain_radius a))
                (z_offset a) (road_step a) (road_width a) (PBool (save_nodes a)))
        (Inr geo) \<in> set tr \<and>
      getitem geo ''file_name'' = Inr stl \<and>
      map_of scene ''parts'' = Some (PDict parts) \<and>
      map_of parts ''roads'' =
        Some (PDict [(''file_name'', stl), (''color'', PStr ''black''),
                     (''material'', PStr ''asphalt'')])"
    by blast
qed

theorem roads_call_arguments_witness:
  "import_from_openstreet_map sample_rt sample_args sample_world =
     (Inr sample_scene, written_world, sample_trace) \<and>
   including_osm_roads sample_args \<and>
   Create_roads 4 sample_anchor (PObj 10) (PNum (PInt 500)) (PNum (PInt 2)) (PNum (PInt 3))
     (PNum (PInt 8)) (PBool False) \<in> set (method_calls sample_trace) \<and>
   (\<exists>rp mesh geo stl parts.
      filter (\<lambda>c. provider_of c = Roads) (method_calls sample_trace) =
        [Create_roads rp sample_anchor mesh (PNum (PInt 500))
           (PNum (PInt 2)) (PNum (PInt 3)) (PNum (PInt 8)) (PBool False)] \<and>
      Called (Create_roads rp sample_anchor mesh (PNum (PInt 500))
                (PNum (PInt 2)) (PNum (PInt 3)) (PNum (PInt 8)) (PBool False)) (Inr geo)
        \<in> set sample_trace \<and>
      getitem geo ''file_name'' = Inr stl \<and>
      map_of sample_scene ''parts'' = Some (PDict parts) \<and>
      map_of parts ''roads'' =
        Some (PDict [(''file_name'', stl), (''color'', PStr ''black''),
                     (''material'', PStr ''asphalt'')]))"
proof -
  have "Create_roads 4 sample_anchor (PObj 10) (PNum (PInt 500)) (PNum (PInt 2))
      (PNum (PInt 3)) (PNum (PInt 8)) (PBool False) \<in> set (method_calls sample_trace)"
    by (simp add: sample_trace_def sample_imports_def)
  with roads_call_arguments [OF sample_run sample_args_simps(5)] sample_run show ?thesis
    by (simp add: sample_args_simps)
qed

text \<open>
  C4. If the call to the terrain provider raises an exception, the import raises that same
  exception, having opened and dumped no file: it stops after the call, and the world,
  the files among it, is as the provider left it.
\<close>

theorem terrain_failure_propagates:
  assumes "imports_stage rt w = (Inr (), wi, ti)"
      and "construct rt TerrainPrep ''.'' wi = (Inr tp, w0)"
      and "call_method rt (Get_terrain tp (latitude_longitude a) (PNum (terrain_radius a)) 30) w0
             = (Inl e, w1)"
  shows "import_from_openstreet_map rt a w =
           (Inl e, w1,
            ti @
            [Constructed TerrainPrep ''.'' (Inr tp),
             Called (Get_terrain tp (latitude_longitude a) (PNum (terrain_radius a)) 30)
               (Inl e)]) \<and>
         filter is_file_event (snd (snd (import_from_openstreet_map rt a w))) = [] \<and>
         files (fst (snd (import_from_openstreet_map rt a w))) = files w1"
  using assms imports_stage_trace [OF assms(1)]
  by (simp add: import_by_stages terrain_stage_def bindM_def new_prep_def invoke_def)

theorem terrain_failure_propagates_witness:
  "imports_stage offline_rt sample_world = (Inr (), sample_world, sample_imports) \<and>
   construct offline_rt TerrainPrep ''.'' sample_world = (Inr 1, sample_world) \<and>
   call_method offline_rt (Get_terrain 1 sample_anchor (PNum (PInt 500)) 30) sample_world
     = (Inl (Raised ''ConnectionError''), sample_world) \<and>
   import_from_openstreet_map offline_rt sample_args sample_world =
     (Inl (Raised ''ConnectionError''), sample_world,
      sample_imports @
      [Constructed TerrainPrep ''.'' (Inr 1),
       Called (Get_terrain 1 sample_anchor (PNum (PInt 500)) 30)
         (Inl (Raised ''ConnectionError''))]) \<and>
   files sample_world ''./default.json'' = Some ''old''"
proof -
  have i: "imports_stage offline_rt sample_world = (Inr (), sample_world, sample_imports)"
    by (simp add: imports_stage_def from_import_def bindM_def offline_rt_def sample_rt_def
        sample_imports_def)
  have c: "construct offline_rt TerrainPrep ''.'' sample_world = (Inr 1, sample_world)"
    by (simp add: offline_rt_def sample_rt_def)
  have m: "call_method offline_rt (Get_terrain 1 (latitude_longitude sample_args)
             (PNum (terrain_radius sample_args)) 30) sample_world
           = (Inl (Raised ''ConnectionError''), sample_world)"
    by (simp add: offline_rt_def sample_rt_def)
  from terrain_failure_propagates [OF i c m] i c m show ?thesis
    by (simp add: sample_args_simps sample_world_def)
qed

text \<open>The same when the constructor of the terrain provider raises.\<close>

lemma terrain_constructor_failure_propagates:
  assumes "imports_stage rt w = (Inr (), wi, ti)"
      and "construct rt TerrainPrep ''.'' wi = (Inl e, w0)"
  shows "import_from_openstreet_map rt a w =
           (Inl e, w0, ti @ [Constructed TerrainPrep ''.'' (Inl e)])"
  using assms
  by (simp add: import_by_stages terrain_stage_def bindM_def new_prep_def)

text \<open>
  C7. A parameter that the call omits takes the default of the signature: the name
  \<^verbatim>\<open>"default"\<close>, the radius 500, the three inclusion flags true, the import into the host
  application and the plot false, the road offset 2, step 3 and width 8, the lightweight
  parts true, the saving of the road nodes false. A call with the anchor alone is the
  body run on these thirteen values.
\<close>

theorem default_arguments:
  "env_name (bind_args ll (kw\<lparr>kw_env_name := None\<rparr>)) = ''default'' \<and>
   terrain_radius (bind_args ll (kw\<lparr>kw_terrain_radius := None\<rparr>)) = PInt 500 \<and>
   include_osm_buildings (bind_args ll (kw\<lparr>kw_include_osm_buildings := None\<rparr>)) = True \<and>
   including_osm_roads (bind_args ll (kw\<lparr>kw_including_osm_roads := None\<rparr>)) = True \<and>
   include_osm_trees (bind_args ll (kw\<lparr>kw_include_osm_trees := None\<rparr>)) = True \<and>
   import_in_aedt (bind_args ll (kw\<lparr>kw_import_in_aedt := None\<rparr>)) = False \<and>
   plot_before_importing (bind_args ll (kw\<lparr>kw_plot_before_importing := None\<rparr>)) = False \<and>
   z_offset (bind_args ll (kw\<lparr>kw_z_offset := None\<rparr>)) = PNum (PInt 2) \<and>
   road_step (bind_args ll (kw\<lparr>kw_road_step := None\<rparr>)) = PNum (PInt 3) \<and>
   road_width (bind_args ll (kw\<lparr>kw_road_width := None\<rparr>)) = PNum (PInt 8) \<and>
   create_lightweigth_part (bind_args ll (kw\<lparr>kw_create_lightweigth_part := None\<rparr>)) = True \<and>
   save_nodes (bind_args ll (kw\<lparr>kw_save_nodes := None\<rparr>)) = False \<and>
   call_import_from_openstreet_map rt ll no_kwargs =
     import_from_openstreet_map rt
       \<lparr>latitude_longitude = ll, env_name = ''default'', terrain_radius = PInt 500,
        include_osm_buildings = True, including_osm_roads = True, include_osm_trees = True,
        import_in_aedt = False, plot_before_importing = False, z_offset = PNum (PInt 2),
        road_step = PNum (PInt 3), road_width = PNum (PInt 8),
        create_lightweigth_part = True, save_nodes = False\<rparr>"
  by (simp add: bind_args_def no_kwargs_def call_import_from_openstreet_map_def)

text \<open>
  C10. The parameters \<^verbatim>\<open>import_in_aedt\<close>, \<^verbatim>\<open>plot_before_importing\<close> and
  \<^verbatim>\<open>create_lightweigth_part\<close> are not read: two calls that differ in them only give, in
  every world, the same result or exception, the same world with the same files, and the
  same events, the provider calls among them.
\<close>

theorem unused_parameters:
  "import_from_openstreet_map rt
     (a\<lparr>import_in_aedt := x, plot_before_importing := y, create_lightweigth_part := z\<rparr>)
   = import_from_openstreet_map rt a"
  by (simp add: import_from_openstreet_map_def Let_def cong: if_cong)

end
